theory Spec2Isabelle
  imports Main "HOL-Library.Sublist" "HOL-Library.AList" "HOL-Library.Char_ord" "HOL-Library.List_Lexorder"
begin

section \<open>Strings and paths\<close>

text \<open>
  Python strings are modelled as \<open>string\<close>. \<open>s.startswith(p)\<close> is \<open>prefix p s\<close> and
  \<open>s.endswith(p)\<close> is \<open>suffix p s\<close>. Errors that the interpreter would raise are values.
\<close>

datatype py_error = IndexError | KeyError

text \<open>\<open>s.split(c)\<close> for a separator of one character: the result is never empty.\<close>

fun split_str :: "char \<Rightarrow> string \<Rightarrow> string list" where
  "split_str c [] = [[]]"
| "split_str c (x # xs) =
     (if x = c then [] # split_str c xs
      else (case split_str c xs of
              [] \<Rightarrow> [[x]]
            | y # ys \<Rightarrow> (x # y) # ys))"

text \<open>\<open>sep.join(parts)\<close>.\<close>

fun join_str :: "string \<Rightarrow> string list \<Rightarrow> string" where
  "join_str s [] = []"
| "join_str s [p] = p"
| "join_str s (p # q # ps) = p @ s @ join_str s (q # ps)"

definition sep :: char where
  "sep = CHR ''/''"

text \<open>The longest common prefix of two lists of segments (\<open>os.path.commonprefix\<close>).\<close>

fun commonprefix :: "'a list \<Rightarrow> 'a list \<Rightarrow> 'a list" where
  "commonprefix (x # xs) (y # ys) = (if x = y then x # commonprefix xs ys else [])"
| "commonprefix _ _ = []"

text \<open>
  \<open>os.path.relpath(path, start)\<close> of the POSIX path library, on absolute normalised paths
  (\<open>main\<close> passes \<open>os.path.abspath\<close> of the root and the files that \<open>os.walk\<close> finds
  under it, for which \<open>abspath\<close> is the identity): both paths are cut into their non-empty
  segments, the common segments are dropped, one \<open>..\<close> is written for every remaining
  segment of \<open>start\<close>, and the result is joined by the separator.
\<close>

definition relpath :: "string \<Rightarrow> string \<Rightarrow> string" where
  "relpath path start =
     (let start_list = filter (\<lambda>x. x \<noteq> []) (split_str sep start);
          path_list = filter (\<lambda>x. x \<noteq> []) (split_str sep path);
          i = length (commonprefix start_list path_list);
          rel_list = replicate (length start_list - i) ''..'' @ drop i path_list
      in if rel_list = [] then ''.'' else join_str [sep] rel_list)"

section \<open>Module Namer\<close>

text \<open>
  \<open>get_module_name\<close>: \<open>parts[-1]\<close> raises IndexError on an empty list, \<open>parts[-1][:-3]\<close>
  drops the last three characters, \<open>parts[:-1]\<close> drops the last segment.
\<close>

definition get_module_name :: "string \<Rightarrow> string \<Rightarrow> py_error + string" where
  "get_module_name file_path root =
     (let rel = relpath file_path root;
          parts = split_str sep rel
      in if parts = [] then Inl IndexError
         else
           let parts = (if suffix ''.py'' (last parts)
                        then parts[length parts - 1 := take (length (last parts) - 3) (last parts)]
                        else parts);
               parts = (if last parts = ''__init__'' then butlast parts else parts)
           in Inr (join_str ''.'' parts))"

text \<open>
  The naming rule in the words of the specification, on the segments of the root-relative
  path: strip the source suffix from the last segment, drop the last segment when it is the
  package initialiser, join what remains with a dot.
\<close>

definition strip_py :: "string \<Rightarrow> string" where
  "strip_py s = (if suffix ''.py'' s then take (length s - 3) s else s)"

definition module_name_of_segments :: "string list \<Rightarrow> string" where
  "module_name_of_segments segs =
     (let stem = strip_py (last segs)
      in join_str ''.'' (if stem = ''__init__'' then butlast segs else butlast segs @ [stem]))"


text \<open>The name that \<open>get_module_name\<close> returns, as a total function.\<close>

definition module_of :: "string \<Rightarrow> string \<Rightarrow> string" where
  "module_of file_path root = module_name_of_segments (split_str sep (relpath file_path root))"

section \<open>Syntax trees\<close>

text \<open>
  The part of Python's \<open>ast\<close> that the analysis looks at. Expressions: a name, an
  attribute access, a call (the callee and the argument expressions, positional ones
  followed by keyword values), a subscript, and any other expression with its child
  expressions (operators, lambdas, comprehensions, literals, ...).
\<close>

datatype expr =
    Name string
  | Attribute expr string
  | Call expr "expr list"
  | Subscript expr expr
  | OtherExpr "expr list"

record arg =
  arg :: string
  annotation :: "expr option"

record arguments =
  posonlyargs :: "arg list"
  args :: "arg list"
  vararg :: "arg option"
  kwonlyargs :: "arg list"
  kw_defaults :: "expr option list"
  kwarg :: "arg option"
  defaults :: "expr list"

record import_alias =
  alias_name :: string
  asname :: "string option"

text \<open>
  Statements: function definitions (plain and \<open>async\<close>), class definitions (name, base
  and keyword expressions, body, decorators), the two import forms, and any other statement
  with its child expressions and child statements.
\<close>

datatype stmt =
    FunctionDef funcdef
  | AsyncFunctionDef funcdef
  | ClassDef string "expr list" "stmt list" "expr list"
  | Import "import_alias list"
  | ImportFrom "string option" "import_alias list"
  | OtherStmt "expr list" "stmt list"
and funcdef =
    FuncDef (def_name: string) (def_args: arguments) (def_body: "stmt list")
            (decorator_list: "expr list") (returns: "expr option")

text \<open>
  \<open>ast.walk\<close> yields a node and all its descendants. The call-graph builder reacts to
  \<open>Call\<close> nodes only and collects into a set, so the model lists the expression nodes;
  their order does not matter.
\<close>

fun walk_expr :: "expr \<Rightarrow> expr list" where
  "walk_expr (Name ident) = [Name ident]"
| "walk_expr (Attribute v attr) = Attribute v attr # walk_expr v"
| "walk_expr (Call f as) = Call f as # walk_expr f @ concat (map walk_expr as)"
| "walk_expr (Subscript v s) = Subscript v s # walk_expr v @ walk_expr s"
| "walk_expr (OtherExpr es) = OtherExpr es # concat (map walk_expr es)"

definition walk_opt :: "expr option \<Rightarrow> expr list" where
  "walk_opt r = (case r of None \<Rightarrow> [] | Some e \<Rightarrow> walk_expr e)"

definition walk_arg :: "arg \<Rightarrow> expr list" where
  "walk_arg a = walk_opt (annotation a)"

definition walk_arg_opt :: "arg option \<Rightarrow> expr list" where
  "walk_arg_opt r = (case r of None \<Rightarrow> [] | Some a \<Rightarrow> walk_arg a)"

definition walk_arguments :: "arguments \<Rightarrow> expr list" where
  "walk_arguments a =
     concat (map walk_arg (posonlyargs a)) @ concat (map walk_arg (args a))
       @ walk_arg_opt (vararg a) @ concat (map walk_arg (kwonlyargs a))
       @ concat (map walk_opt (kw_defaults a)) @ walk_arg_opt (kwarg a)
       @ concat (map walk_expr (defaults a))"

fun walk_stmt :: "stmt \<Rightarrow> expr list" and walk :: "funcdef \<Rightarrow> expr list" where
  "walk_stmt (FunctionDef fd) = walk fd"
| "walk_stmt (AsyncFunctionDef fd) = walk fd"
| "walk_stmt (ClassDef cname bases cbody decos) =
     concat (map walk_expr bases) @ concat (map walk_stmt cbody) @ concat (map walk_expr decos)"
| "walk_stmt (Import names) = []"
| "walk_stmt (ImportFrom m names) = []"
| "walk_stmt (OtherStmt es ss) = concat (map walk_expr es) @ concat (map walk_stmt ss)"
| "walk (FuncDef n a fbody decos r) =
     walk_arguments a @ concat (map walk_stmt fbody) @ concat (map walk_expr decos)
       @ walk_opt r"

section \<open>Helpers for parsing\<close>

text \<open>
  The text of an annotation comes from the \<open>ast\<close> library: \<open>ast.unparse\<close> where the
  interpreter has it, \<open>ast.dump\<close> otherwise. Both are parameters of the model.
\<close>

record ast_lib =
  has_unparse :: bool
  unparse :: "expr \<Rightarrow> string"
  dump :: "expr \<Rightarrow> string"

definition get_arg_type :: "ast_lib \<Rightarrow> arg \<Rightarrow> string" where
  "get_arg_type lib a =
     (case annotation a of
        Some e \<Rightarrow> (if has_unparse lib then unparse lib e else dump lib e)
      | None \<Rightarrow> ''Any'')"

definition get_return_type :: "ast_lib \<Rightarrow> funcdef \<Rightarrow> string" where
  "get_return_type lib node =
     (case returns node of
        Some e \<Rightarrow> (if has_unparse lib then unparse lib e else dump lib e)
      | None \<Rightarrow> ''Any'')"

section \<open>Definition and import collector\<close>

text \<open>
  The registry \<open>all_functions\<close> is a dictionary that is later iterated: an association list
  in insertion order, assigned with \<open>AList.update\<close> (an existing key keeps its place and
  takes the new value). The import tables are only looked up: maps. The error lines written
  by \<open>logging.error\<close> are collected in \<open>error_log\<close>.
\<close>

type_synonym definition_entry = "string \<times> funcdef \<times> string option"

record collected =
  all_functions :: "(string \<times> definition_entry) list"
  module_imports :: "string \<rightharpoonup> (string \<rightharpoonup> string)"
  symbol_imports :: "string \<rightharpoonup> (string \<rightharpoonup> (string option \<times> string))"
  error_log :: "string list"

text \<open>\<open>d[k1][k2] = v\<close>: KeyError when \<open>k1\<close> is missing.\<close>

definition set_nested ::
  "('a \<rightharpoonup> ('b \<rightharpoonup> 'c)) \<Rightarrow> 'a \<Rightarrow> 'b \<Rightarrow> 'c \<Rightarrow> py_error + ('a \<rightharpoonup> ('b \<rightharpoonup> 'c))" where
  "set_nested d k1 k2 v =
     (case d k1 of
        None \<Rightarrow> Inl KeyError
      | Some t \<Rightarrow> Inr (d(k1 \<mapsto> t(k2 \<mapsto> v))))"

text \<open>\<open>alias.asname or alias.name\<close>.\<close>

definition local_name :: "import_alias \<Rightarrow> string" where
  "local_name a =
     (case asname a of
        None \<Rightarrow> alias_name a
      | Some n \<Rightarrow> (if n = [] then alias_name a else n))"

fun import_loop ::
  "string \<Rightarrow> (string \<rightharpoonup> (string \<rightharpoonup> string)) \<Rightarrow> import_alias list
     \<Rightarrow> py_error + (string \<rightharpoonup> (string \<rightharpoonup> string))" where
  "import_loop module mi [] = Inr mi"
| "import_loop module mi (a # names) =
     (case set_nested mi module (local_name a) (alias_name a) of
        Inl e \<Rightarrow> Inl e
      | Inr mi' \<Rightarrow> import_loop module mi' names)"

fun import_from_loop ::
  "string \<Rightarrow> string option \<Rightarrow> (string \<rightharpoonup> (string \<rightharpoonup> (string option \<times> string)))
     \<Rightarrow> import_alias list \<Rightarrow> py_error + (string \<rightharpoonup> (string \<rightharpoonup> (string option \<times> string)))" where
  "import_from_loop module m si [] = Inr si"
| "import_from_loop module m si (a # names) =
     (case set_nested si module (local_name a) (m, alias_name a) of
        Inl e \<Rightarrow> Inl e
      | Inr si' \<Rightarrow> import_from_loop module m si' names)"

text \<open>One item of a class body: only function definitions are registered.\<close>

fun collect_item ::
  "string \<Rightarrow> string \<Rightarrow> string \<Rightarrow> (string \<times> definition_entry) list \<Rightarrow> stmt
     \<Rightarrow> (string \<times> definition_entry) list" where
  "collect_item file_path module cname af (FunctionDef item) =
     AList.update (module @ ''.'' @ cname @ ''.'' @ def_name item) (file_path, item, Some cname) af"
| "collect_item file_path module cname af (AsyncFunctionDef item) =
     AList.update (module @ ''.'' @ cname @ ''.'' @ def_name item) (file_path, item, Some cname) af"
| "collect_item file_path module cname af _ = af"

text \<open>One top-level statement of a file.\<close>

fun collect_node :: "string \<Rightarrow> string \<Rightarrow> collected \<Rightarrow> stmt \<Rightarrow> py_error + collected" where
  "collect_node file_path module st (FunctionDef node) =
     Inr (st\<lparr>all_functions :=
            AList.update (module @ ''.'' @ def_name node) (file_path, node, None) (all_functions st)\<rparr>)"
| "collect_node file_path module st (AsyncFunctionDef node) =
     Inr (st\<lparr>all_functions :=
            AList.update (module @ ''.'' @ def_name node) (file_path, node, None) (all_functions st)\<rparr>)"
| "collect_node file_path module st (ClassDef cname bases cbody decos) =
     Inr (st\<lparr>all_functions := foldl (collect_item file_path module cname) (all_functions st) cbody\<rparr>)"
| "collect_node file_path module st (Import names) =
     (case import_loop module (module_imports st) names of
        Inl e \<Rightarrow> Inl e
      | Inr mi \<Rightarrow> Inr (st\<lparr>module_imports := mi\<rparr>))"
| "collect_node file_path module st (ImportFrom m names) =
     (case import_from_loop module m (symbol_imports st) names of
        Inl e \<Rightarrow> Inl e
      | Inr si \<Rightarrow> Inr (st\<lparr>symbol_imports := si\<rparr>))"
| "collect_node file_path module st (OtherStmt es ss) = Inr st"

fun body_loop :: "string \<Rightarrow> string \<Rightarrow> collected \<Rightarrow> stmt list \<Rightarrow> py_error + collected" where
  "body_loop file_path module st [] = Inr st"
| "body_loop file_path module st (node # nodes) =
     (case collect_node file_path module st node of
        Inl e \<Rightarrow> Inl e
      | Inr st' \<Rightarrow> body_loop file_path module st' nodes)"

text \<open>
  Reading and parsing a file is a parameter: \<open>parse_file file_path\<close> is \<open>Inr\<close> of the
  top-level statements of the tree, or \<open>Inl\<close> of the text of the exception that \<open>open\<close>,
  \<open>read\<close> or \<open>ast.parse\<close> raised.
\<close>

definition failed_message :: "string \<Rightarrow> string \<Rightarrow> string" where
  "failed_message file_path e = ''Failed to parse '' @ file_path @ '': '' @ e"

fun files_loop ::
  "(string \<Rightarrow> string + stmt list) \<Rightarrow> string \<Rightarrow> collected \<Rightarrow> string list \<Rightarrow> py_error + collected" where
  "files_loop parse_file root st [] = Inr st"
| "files_loop parse_file root st (file_path # rest) =
     (case get_module_name file_path root of
        Inl e \<Rightarrow> Inl e
      | Inr module \<Rightarrow>
          let st1 = st\<lparr>module_imports := (module_imports st)(module \<mapsto> Map.empty),
                      symbol_imports := (symbol_imports st)(module \<mapsto> Map.empty)\<rparr>
          in (case parse_file file_path of
                Inl e \<Rightarrow>
                  files_loop parse_file root
                    (st1\<lparr>error_log := error_log st1 @ [failed_message file_path e]\<rparr>) rest
              | Inr tree_body \<Rightarrow>
                  (case body_loop file_path module st1 tree_body of
                     Inl e \<Rightarrow> Inl e
                   | Inr st2 \<Rightarrow> files_loop parse_file root st2 rest)))"

definition collect_functions_and_imports ::
  "(string \<Rightarrow> string + stmt list) \<Rightarrow> string list \<Rightarrow> string \<Rightarrow> py_error + collected" where
  "collect_functions_and_imports parse_file py_files root =
     files_loop parse_file root
       \<lparr>all_functions = [], module_imports = Map.empty, symbol_imports = Map.empty,
        error_log = []\<rparr>
       py_files"

section \<open>Name resolver\<close>

text \<open>
  \<open>qname.split(".")[-1]\<close>: the text after the last dot (\<open>split\<close> never returns an empty
  list, so the index is always in range).
\<close>

definition last_segment :: "string \<Rightarrow> string" where
  "last_segment qname = last (split_str CHR ''.'' qname)"

text \<open>
  \<open>resolve_function_name\<close> returns \<open>None\<close> or a set of qualified names. Step 1 is the
  local scope, step 2 the symbol imports of the calling module
  (\<open>symbol_imports.get(current_module, {})\<close>, prefix \<open>from_mod or ""\<close>), the last step the
  reverse index. The module-alias table is passed and never read, and the local \<open>target\<close>
  of step 2 is computed and never used.
\<close>

definition resolve_function_name ::
  "string \<Rightarrow> string \<Rightarrow> (string \<rightharpoonup> (string \<rightharpoonup> string))
     \<Rightarrow> (string \<rightharpoonup> (string \<rightharpoonup> (string option \<times> string)))
     \<Rightarrow> (string \<times> definition_entry) list \<Rightarrow> (string \<rightharpoonup> string set) \<Rightarrow> string set option" where
  "resolve_function_name name current_module mod_imports sym_imports functions symbol_to_func =
     (let possible = set (filter (\<lambda>candidate. prefix (current_module @ ''.'') candidate
                                     \<and> last_segment candidate = name) (map fst functions))
      in if possible \<noteq> {} then Some possible
         else
           (case (case sym_imports current_module of None \<Rightarrow> Map.empty | Some t \<Rightarrow> t) name of
              Some (from_mod, orig_name) \<Rightarrow>
                (let resolved = set (filter (\<lambda>k. suffix (''.'' @ orig_name) k
                                              \<and> prefix (case from_mod of None \<Rightarrow> [] | Some m \<Rightarrow> m) k)
                                        (map fst functions))
                 in if resolved \<noteq> {} then Some resolved else symbol_to_func name)
            | None \<Rightarrow> symbol_to_func name))"

section \<open>Call graph builder\<close>

text \<open>\<open>symbol_to_func.setdefault(short, set()).add(qname)\<close> for one qualified name.\<close>

definition add_symbol :: "(string \<rightharpoonup> string set) \<Rightarrow> string \<Rightarrow> (string \<rightharpoonup> string set)" where
  "add_symbol symbol_to_func qname =
     (let short = last_segment qname
      in symbol_to_func(short \<mapsto>
           insert qname (case symbol_to_func short of None \<Rightarrow> {} | Some s \<Rightarrow> s)))"

definition reverse_index :: "(string \<times> definition_entry) list \<Rightarrow> (string \<rightharpoonup> string set)" where
  "reverse_index functions = foldl add_symbol Map.empty (map fst functions)"

text \<open>The bare name of a callee, from the \<open>func\<close> field of a call.\<close>

fun callee_name :: "expr \<Rightarrow> string option" where
  "callee_name (Name ident) = Some ident"
| "callee_name (Attribute (Name receiver) attr) = Some attr"
| "callee_name _ = None"

text \<open>
  One node of the walk: a call with a non-empty bare name is resolved, and the resolved
  names that are keys of the registry are added to \<open>called\<close>.
\<close>

definition add_call ::
  "string \<Rightarrow> (string \<rightharpoonup> (string \<rightharpoonup> string))
     \<Rightarrow> (string \<rightharpoonup> (string \<rightharpoonup> (string option \<times> string)))
     \<Rightarrow> (string \<times> definition_entry) list \<Rightarrow> (string \<rightharpoonup> string set)
     \<Rightarrow> string set \<Rightarrow> expr \<Rightarrow> string set" where
  "add_call module mod_imports sym_imports functions symbol_to_func called call_node =
     (case call_node of
        Call func as \<Rightarrow>
          (case callee_name func of
             None \<Rightarrow> called
           | Some name \<Rightarrow>
               if name = [] then called
               else
                 (case resolve_function_name name module mod_imports sym_imports functions
                         symbol_to_func of
                    None \<Rightarrow> called
                  | Some resolved \<Rightarrow>
                      if resolved \<noteq> {} \<and> resolved \<inter> fst ` set functions \<noteq> {}
                      then called \<union> {r \<in> resolved. r \<in> fst ` set functions}
                      else called))
      | _ \<Rightarrow> called)"

text \<open>The inner loop over \<open>ast.walk(node)\<close>, from the empty set.\<close>

definition called_by ::
  "string \<Rightarrow> (string \<rightharpoonup> (string \<rightharpoonup> string))
     \<Rightarrow> (string \<rightharpoonup> (string \<rightharpoonup> (string option \<times> string)))
     \<Rightarrow> (string \<times> definition_entry) list \<Rightarrow> (string \<rightharpoonup> string set)
     \<Rightarrow> funcdef \<Rightarrow> string set" where
  "called_by module mod_imports sym_imports functions symbol_to_func node =
     foldl (add_call module mod_imports sym_imports functions symbol_to_func) {} (walk node)"

record function_detail =
  detail_args :: "(string \<times> string) list"
  detail_return :: string
  detail_calls :: "string set"

fun details_loop ::
  "ast_lib \<Rightarrow> string \<Rightarrow> (string \<rightharpoonup> (string \<rightharpoonup> string))
     \<Rightarrow> (string \<rightharpoonup> (string \<rightharpoonup> (string option \<times> string)))
     \<Rightarrow> (string \<times> definition_entry) list \<Rightarrow> (string \<rightharpoonup> string set)
     \<Rightarrow> (string \<times> function_detail) list \<Rightarrow> (string \<times> definition_entry) list
     \<Rightarrow> py_error + (string \<times> function_detail) list" where
  "details_loop lib root mod_imports sym_imports functions symbol_to_func function_details [] =
     Inr function_details"
| "details_loop lib root mod_imports sym_imports functions symbol_to_func function_details
       ((qname, (file_path, node, class_name)) # items) =
     (case get_module_name file_path root of
        Inl e \<Rightarrow> Inl e
      | Inr module \<Rightarrow>
          details_loop lib root mod_imports sym_imports functions symbol_to_func
            (AList.update qname
               \<lparr>detail_args = map (\<lambda>a. (arg a, get_arg_type lib a)) (args (def_args node)),
                detail_return = get_return_type lib node,
                detail_calls =
                  called_by module mod_imports sym_imports functions symbol_to_func node\<rparr>
               function_details)
            items)"

definition build_function_call_graph ::
  "ast_lib \<Rightarrow> string list \<Rightarrow> string \<Rightarrow> (string \<times> definition_entry) list
     \<Rightarrow> (string \<rightharpoonup> (string \<rightharpoonup> string))
     \<Rightarrow> (string \<rightharpoonup> (string \<rightharpoonup> (string option \<times> string)))
     \<Rightarrow> py_error + (string \<times> function_detail) list" where
  "build_function_call_graph lib py_files root functions mod_imports sym_imports =
     details_loop lib root mod_imports sym_imports functions (reverse_index functions) []
       functions"

section \<open>Markdown output\<close>

definition render_entry :: "string \<times> function_detail \<Rightarrow> string list" where
  "render_entry item =
     (case item of
        (qname, details) \<Rightarrow>
          [''### `'' @ qname @ ''(''
             @ join_str '', '' (map (\<lambda>(n, t). n @ '': '' @ t) (detail_args details))
             @ '') -> '' @ detail_return details @ ''`'',
           (if detail_calls details \<noteq> {}
            then ''- Calls: `'' @ join_str '', '' (sorted_list_of_set (detail_calls details)) @ ''`''
            else ''- Calls: None''),
           []])"

definition write_markdown ::
  "string \<Rightarrow> (string \<times> function_detail) list \<Rightarrow> (string \<times> definition_entry) list \<Rightarrow> string" where
  "write_markdown root function_details functions =
     join_str [CHR 0x0A]
       ([''# Project-wide Function Mapping'' @ [CHR 0x0A],
         ''## Functions (with cross-file call analysis)'' @ [CHR 0x0A]]
        @ concat (map render_entry (sort_key fst function_details)))"

section \<open>The analysis run\<close>

text \<open>
  The three passes as \<open>main\<close> chains them, from the list of files to the text of the
  report; an error of a pass ends the run.
\<close>

record analysis =
  collected_state :: collected
  details :: "(string \<times> function_detail) list"
  report :: string

definition analyse ::
  "ast_lib \<Rightarrow> (string \<Rightarrow> string + stmt list) \<Rightarrow> string list \<Rightarrow> string \<Rightarrow> py_error + analysis" where
  "analyse lib parse_file py_files root =
     (case collect_functions_and_imports parse_file py_files root of
        Inl e \<Rightarrow> Inl e
      | Inr st \<Rightarrow>
          (case build_function_call_graph lib py_files root (all_functions st)
                  (module_imports st) (symbol_imports st) of
             Inl e \<Rightarrow> Inl e
           | Inr function_details \<Rightarrow>
               Inr \<lparr>collected_state = st, details = function_details,
                    report = write_markdown root function_details (all_functions st)\<rparr>))"

section \<open>Notions used to state the properties\<close>

text \<open>
  The assignments \<open>all_functions[func_name] = ...\<close> that the collector performs, in the
  order in which it performs them: for one item of a class body, for one top-level
  statement, for one file (none when the file does not parse), for the list of files.
\<close>

fun item_registrations :: "string \<Rightarrow> string \<Rightarrow> string \<Rightarrow> stmt \<Rightarrow> (string \<times> definition_entry) list" where
  "item_registrations file_path module cname (FunctionDef item) =
     [(module @ ''.'' @ cname @ ''.'' @ def_name item, (file_path, item, Some cname))]"
| "item_registrations file_path module cname (AsyncFunctionDef item) =
     [(module @ ''.'' @ cname @ ''.'' @ def_name item, (file_path, item, Some cname))]"
| "item_registrations file_path module cname _ = []"

fun node_registrations :: "string \<Rightarrow> string \<Rightarrow> stmt \<Rightarrow> (string \<times> definition_entry) list" where
  "node_registrations file_path module (FunctionDef node) =
     [(module @ ''.'' @ def_name node, (file_path, node, None))]"
| "node_registrations file_path module (AsyncFunctionDef node) =
     [(module @ ''.'' @ def_name node, (file_path, node, None))]"
| "node_registrations file_path module (ClassDef cname bases cbody decos) =
     concat (map (item_registrations file_path module cname) cbody)"
| "node_registrations file_path module _ = []"

definition file_registrations ::
  "(string \<Rightarrow> string + stmt list) \<Rightarrow> string \<Rightarrow> string \<Rightarrow> (string \<times> definition_entry) list" where
  "file_registrations parse_file root file_path =
     (case parse_file file_path of
        Inl e \<Rightarrow> []
      | Inr tree_body \<Rightarrow>
          concat (map (node_registrations file_path (module_of file_path root)) tree_body))"

definition registrations ::
  "(string \<Rightarrow> string + stmt list) \<Rightarrow> string \<Rightarrow> string list \<Rightarrow> (string \<times> definition_entry) list" where
  "registrations parse_file root py_files =
     concat (map (file_registrations parse_file root) py_files)"

text \<open>A sequence of dictionary assignments, applied from left to right.\<close>

definition assign_all :: "('k \<times> 'v) list \<Rightarrow> ('k \<times> 'v) list \<Rightarrow> ('k \<times> 'v) list" where
  "assign_all d kvs = foldl (\<lambda>d kv. AList.update (fst kv) (snd kv) d) d kvs"

text \<open>The import tables that the statements of one file build, from an initial table.\<close>

definition aliases_of_node :: "(string \<rightharpoonup> string) \<Rightarrow> stmt \<Rightarrow> (string \<rightharpoonup> string)" where
  "aliases_of_node t node =
     (case node of
        Import names \<Rightarrow> foldl (\<lambda>t a. t(local_name a \<mapsto> alias_name a)) t names
      | _ \<Rightarrow> t)"

definition symbols_of_node ::
  "(string \<rightharpoonup> (string option \<times> string)) \<Rightarrow> stmt \<Rightarrow> (string \<rightharpoonup> (string option \<times> string))" where
  "symbols_of_node t node =
     (case node of
        ImportFrom m names \<Rightarrow> foldl (\<lambda>t a. t(local_name a \<mapsto> (m, alias_name a))) t names
      | _ \<Rightarrow> t)"

text \<open>The messages logged for the files that do not parse.\<close>

definition failure_messages :: "(string \<Rightarrow> string + stmt list) \<Rightarrow> string list \<Rightarrow> string list" where
  "failure_messages parse_file py_files =
     concat (map (\<lambda>file_path. case parse_file file_path of
                                 Inl e \<Rightarrow> [failed_message file_path e]
                               | Inr tree_body \<Rightarrow> []) py_files)"

text \<open>The effect of one file on the collected state, as a total function.\<close>

definition file_step ::
  "(string \<Rightarrow> string + stmt list) \<Rightarrow> string \<Rightarrow> collected \<Rightarrow> string \<Rightarrow> collected" where
  "file_step parse_file root st file_path =
     (let module = module_of file_path root
      in case parse_file file_path of
           Inl e \<Rightarrow>
             st\<lparr>module_imports := (module_imports st)(module \<mapsto> Map.empty),
                symbol_imports := (symbol_imports st)(module \<mapsto> Map.empty),
                error_log := error_log st @ [failed_message file_path e]\<rparr>
         | Inr tree_body \<Rightarrow>
             st\<lparr>all_functions :=
                  assign_all (all_functions st)
                    (concat (map (node_registrations file_path module) tree_body)),
                module_imports :=
                  (module_imports st)(module \<mapsto> foldl aliases_of_node Map.empty tree_body),
                symbol_imports :=
                  (symbol_imports st)(module \<mapsto> foldl symbols_of_node Map.empty tree_body)\<rparr>)"

text \<open>The import tables that one file leaves under its module name.\<close>

definition file_aliases :: "(string \<Rightarrow> string + stmt list) \<Rightarrow> string \<Rightarrow> (string \<rightharpoonup> string)" where
  "file_aliases parse_file file_path =
     (case parse_file file_path of
        Inl e \<Rightarrow> Map.empty
      | Inr tree_body \<Rightarrow> foldl aliases_of_node Map.empty tree_body)"

definition file_symbols ::
  "(string \<Rightarrow> string + stmt list) \<Rightarrow> string \<Rightarrow> (string \<rightharpoonup> (string option \<times> string))" where
  "file_symbols parse_file file_path =
     (case parse_file file_path of
        Inl e \<Rightarrow> Map.empty
      | Inr tree_body \<Rightarrow> foldl symbols_of_node Map.empty tree_body)"

text \<open>The last file of the list that has a given module name.\<close>

definition last_file_of :: "string \<Rightarrow> string list \<Rightarrow> string \<Rightarrow> string option" where
  "last_file_of root py_files module =
     find (\<lambda>file_path. module_of file_path root = module) (rev py_files)"

text \<open>
  The edges that one bare name contributes in a module: the resolved names that are keys of
  the registry.
\<close>

definition edges_of_name ::
  "string \<Rightarrow> (string \<rightharpoonup> (string \<rightharpoonup> string))
     \<Rightarrow> (string \<rightharpoonup> (string \<rightharpoonup> (string option \<times> string)))
     \<Rightarrow> (string \<times> definition_entry) list \<Rightarrow> (string \<rightharpoonup> string set)
     \<Rightarrow> string \<Rightarrow> string set" where
  "edges_of_name module mod_imports sym_imports functions symbol_to_func name =
     (case resolve_function_name name module mod_imports sym_imports functions symbol_to_func of
        None \<Rightarrow> {}
      | Some resolved \<Rightarrow> {r \<in> resolved. r \<in> fst ` set functions})"

text \<open>The bare names that the calls inside a definition yield.\<close>

definition called_names :: "funcdef \<Rightarrow> string set" where
  "called_names node =
     {name. name \<noteq> [] \<and> (\<exists>func as. Call func as \<in> set (walk node) \<and> callee_name func = Some name)}"

text \<open>The details recorded for one entry of the registry.\<close>

definition detail_of ::
  "ast_lib \<Rightarrow> string \<Rightarrow> (string \<rightharpoonup> (string \<rightharpoonup> string))
     \<Rightarrow> (string \<rightharpoonup> (string \<rightharpoonup> (string option \<times> string)))
     \<Rightarrow> (string \<times> definition_entry) list \<Rightarrow> (string \<rightharpoonup> string set)
     \<Rightarrow> string \<times> definition_entry \<Rightarrow> string \<times> function_detail" where
  "detail_of lib root mod_imports sym_imports functions symbol_to_func item =
     (case item of
        (qname, (file_path, node, class_name)) \<Rightarrow>
          (qname,
           \<lparr>detail_args = map (\<lambda>a. (arg a, get_arg_type lib a)) (args (def_args node)),
            detail_return = get_return_type lib node,
            detail_calls =
              called_by (module_of file_path root) mod_imports sym_imports functions
                symbol_to_func node\<rparr>))"

text \<open>A list of expression nodes that contains every node of the walk of each of its members.\<close>

definition walk_closed :: "expr list \<Rightarrow> bool" where
  "walk_closed xs \<longleftrightarrow> (\<forall>x \<in> set xs. set (walk_expr x) \<subseteq> set xs)"

text \<open>The text that the \<open>ast\<close> library gives for an annotation.\<close>

definition annotation_text :: "ast_lib \<Rightarrow> expr \<Rightarrow> string" where
  "annotation_text lib e = (if has_unparse lib then unparse lib e else dump lib e)"

text \<open>The registry and the error log that a run leaves.\<close>

definition registry_of :: "py_error + analysis \<Rightarrow> (string \<times> definition_entry) list" where
  "registry_of run =
     (case run of
        Inl e \<Rightarrow> []
      | Inr a \<Rightarrow> all_functions (collected_state a))"


text \<open>The initial state of the collector.\<close>

definition initial_state :: collected where
  "initial_state =
     \<lparr>all_functions = [], module_imports = Map.empty, symbol_imports = Map.empty,
      error_log = []\<rparr>"

text \<open>The state after all files, as the fold of the effects of the files.\<close>

definition final_state :: "(string \<Rightarrow> string + stmt list) \<Rightarrow> string \<Rightarrow> string list \<Rightarrow> collected" where
  "final_state parse_file root py_files = foldl (file_step parse_file root) initial_state py_files"

text \<open>What a run of the collector leaves: registry, error log and import tables.\<close>

definition functions_of :: "py_error + collected \<Rightarrow> (string \<times> definition_entry) list" where
  "functions_of r = (case r of Inl e \<Rightarrow> [] | Inr st \<Rightarrow> all_functions st)"

definition log_of :: "py_error + collected \<Rightarrow> string list" where
  "log_of r = (case r of Inl e \<Rightarrow> [] | Inr st \<Rightarrow> error_log st)"

definition module_table_of :: "py_error + collected \<Rightarrow> string \<Rightarrow> (string \<rightharpoonup> string) option" where
  "module_table_of r module = (case r of Inl e \<Rightarrow> None | Inr st \<Rightarrow> module_imports st module)"

definition symbol_table_of ::
  "py_error + collected \<Rightarrow> string \<Rightarrow> (string \<rightharpoonup> (string option \<times> string)) option" where
  "symbol_table_of r module = (case r of Inl e \<Rightarrow> None | Inr st \<Rightarrow> symbol_imports st module)"

definition alias_of :: "py_error + collected \<Rightarrow> string \<Rightarrow> string \<Rightarrow> string option" where
  "alias_of r module local =
     (case module_table_of r module of
        None \<Rightarrow> None
      | Some t \<Rightarrow> t local)"

definition symbol_of :: "py_error + collected \<Rightarrow> string \<Rightarrow> string \<Rightarrow> (string option \<times> string) option" where
  "symbol_of r module local =
     (case symbol_table_of r module of
        None \<Rightarrow> None
      | Some t \<Rightarrow> t local)"



text \<open>
  A definition that the collector registers from the top-level statements \<open>tree_body\<close> of a
  module: a top-level function (no class), or a function directly inside a top-level class.
\<close>

definition collectable :: "string \<Rightarrow> stmt list \<Rightarrow> string \<Rightarrow> funcdef \<Rightarrow> string option \<Rightarrow> bool" where
  "collectable module tree_body qname node class_name \<longleftrightarrow>
     (class_name = None
        \<and> (FunctionDef node \<in> set tree_body \<or> AsyncFunctionDef node \<in> set tree_body)
        \<and> qname = module @ ''.'' @ def_name node)
     \<or> (\<exists>cname bases cbody decos.
           class_name = Some cname
           \<and> ClassDef cname bases cbody decos \<in> set tree_body
           \<and> (FunctionDef node \<in> set cbody \<or> AsyncFunctionDef node \<in> set cbody)
           \<and> qname = module @ ''.'' @ cname @ ''.'' @ def_name node)"




section \<open>Concrete inputs\<close>

text \<open>Small syntax trees and file systems on which the properties are evaluated.\<close>

definition no_arguments :: arguments where
  "no_arguments =
     \<lparr>posonlyargs = [], args = [], vararg = None, kwonlyargs = [], kw_defaults = [],
      kwarg = None, defaults = []\<rparr>"

text \<open>\<open>def name(): body\<close>, and an expression used as a statement.\<close>

definition plain_def :: "string \<Rightarrow> stmt list \<Rightarrow> funcdef" where
  "plain_def n fbody = FuncDef n no_arguments fbody [] None"

definition expr_stmt :: "expr \<Rightarrow> stmt" where
  "expr_stmt e = OtherStmt [e] []"

definition plain_import :: "string \<Rightarrow> import_alias" where
  "plain_import n = \<lparr>alias_name = n, asname = None\<rparr>"

text \<open>An \<open>ast\<close> library that prints a name as itself.\<close>

definition name_lib :: ast_lib where
  "name_lib =
     \<lparr>has_unparse = True,
      unparse = (\<lambda>e. case e of Name ident \<Rightarrow> ident | _ \<Rightarrow> ''expr''),
      dump = (\<lambda>e. ''dump'')\<rparr>"

text \<open>The call edges, the parameters and the return type of a definition after a run.\<close>

definition calls_of :: "py_error + analysis \<Rightarrow> string \<Rightarrow> string set option" where
  "calls_of run qname =
     (case run of
        Inl e \<Rightarrow> None
      | Inr a \<Rightarrow> map_option detail_calls (map_of (details a) qname))"

definition args_of :: "py_error + analysis \<Rightarrow> string \<Rightarrow> (string \<times> string) list option" where
  "args_of run qname =
     (case run of
        Inl e \<Rightarrow> None
      | Inr a \<Rightarrow> map_option detail_args (map_of (details a) qname))"

definition return_of :: "py_error + analysis \<Rightarrow> string \<Rightarrow> string option" where
  "return_of run qname =
     (case run of
        Inl e \<Rightarrow> None
      | Inr a \<Rightarrow> map_option detail_return (map_of (details a) qname))"

text \<open>Modules \<open>a\<close> and \<open>b\<close> both define \<open>helper\<close>; \<open>a\<close> also imports \<open>helper\<close> from \<open>b\<close>.\<close>

definition helper_registry :: "(string \<times> definition_entry) list" where
  "helper_registry =
     [(''a.helper'', (''/r/a.py'', plain_def ''helper'' [], None)),
      (''b.helper'', (''/r/b.py'', plain_def ''helper'' [], None))]"

definition helper_symbols :: "string \<rightharpoonup> (string \<rightharpoonup> (string option \<times> string))" where
  "helper_symbols = [''a'' \<mapsto> [''helper'' \<mapsto> (Some ''b'', ''helper'')]]"

text \<open>
  \<open>m.caller\<close> calls \<open>target()\<close> twice, \<open>self.target()\<close> once and the library function
  \<open>print()\<close>; \<open>m.target\<close> calls nothing.
\<close>

definition caller_node :: funcdef where
  "caller_node =
     plain_def ''caller''
       [expr_stmt (Call (Name ''target'') []),
        expr_stmt (Call (Name ''target'') []),
        expr_stmt (Call (Attribute (Name ''self'') ''target'') []),
        expr_stmt (Call (Name ''print'') [Name ''x''])]"

definition caller_registry :: "(string \<times> definition_entry) list" where
  "caller_registry =
     [(''m.caller'', (''/r/m.py'', caller_node, None)),
      (''m.target'', (''/r/m.py'', plain_def ''target'' [], None))]"




text \<open>
  Module \<open>a\<close> holds \<open>from b import util\<close> and \<open>def func(): util()\<close>; modules \<open>b\<close>,
  \<open>bar\<close> and \<open>c\<close> each define \<open>util\<close>.
\<close>

definition util_parse :: "string \<Rightarrow> string + stmt list" where
  "util_parse file_path =
     (if file_path = ''/r/a.py''
      then Inr [ImportFrom (Some ''b'') [plain_import ''util''],
                FunctionDef (plain_def ''func'' [expr_stmt (Call (Name ''util'') [])])]
      else if file_path = ''/r/b.py'' \<or> file_path = ''/r/bar.py'' \<or> file_path = ''/r/c.py''
      then Inr [FunctionDef (plain_def ''util'' [])]
      else Inl ''no such file'')"

definition util_files :: "string list" where
  "util_files = [''/r/a.py'', ''/r/b.py'', ''/r/bar.py'', ''/r/c.py'']"

definition util_registry :: "(string \<times> definition_entry) list" where
  "util_registry =
     [(''a.func'', (''/r/a.py'', plain_def ''func'' [expr_stmt (Call (Name ''util'') [])], None)),
      (''b.util'', (''/r/b.py'', plain_def ''util'' [], None)),
      (''bar.util'', (''/r/bar.py'', plain_def ''util'' [], None)),
      (''c.util'', (''/r/c.py'', plain_def ''util'' [], None))]"

definition util_symbols :: "string \<rightharpoonup> (string \<rightharpoonup> (string option \<times> string))" where
  "util_symbols = [''a'' \<mapsto> [''util'' \<mapsto> (Some ''b'', ''util'')]]"

text \<open>\<open>def f(x, y: int, *rest, z) -> str\<close> and \<open>def g(w)\<close> in module \<open>m\<close>.\<close>

definition typed_f :: funcdef where
  "typed_f =
     FuncDef ''f''
       \<lparr>posonlyargs = [],
        args = [\<lparr>arg = ''x'', annotation = None\<rparr>, \<lparr>arg = ''y'', annotation = Some (Name ''int'')\<rparr>],
        vararg = Some \<lparr>arg = ''rest'', annotation = None\<rparr>,
        kwonlyargs = [\<lparr>arg = ''z'', annotation = None\<rparr>], kw_defaults = [None],
        kwarg = None, defaults = []\<rparr>
       [] [] (Some (Name ''str''))"

definition typed_g :: funcdef where
  "typed_g = FuncDef ''g'' (no_arguments\<lparr>args := [\<lparr>arg = ''w'', annotation = None\<rparr>]\<rparr>) [] [] None"

definition typed_parse :: "string \<Rightarrow> string + stmt list" where
  "typed_parse file_path =
     (if file_path = ''/r/m.py'' then Inr [FunctionDef typed_f, AsyncFunctionDef typed_g]
      else Inl ''no such file'')"




text \<open>Module \<open>m\<close> defines \<open>f\<close> twice: \<open>def f(): one()\<close> and then \<open>def f(): two()\<close>.\<close>

definition twice_parse :: "string \<Rightarrow> string + stmt list" where
  "twice_parse file_path =
     (if file_path = ''/r/m.py''
      then Inr [FunctionDef (plain_def ''f'' [expr_stmt (Call (Name ''one'') [])]),
                FunctionDef (plain_def ''f'' [expr_stmt (Call (Name ''two'') [])])]
      else Inl ''no such file'')"

text \<open>
  \<open>pkg.py\<close> does not parse; \<open>pkg/__init__.py\<close> holds \<open>import os\<close> and
  \<open>from sys import path\<close>. Both files have the module name \<open>pkg\<close>.
\<close>

definition pkg_parse :: "string \<Rightarrow> string + stmt list" where
  "pkg_parse file_path =
     (if file_path = ''/r/pkg/__init__.py''
      then Inr [Import [plain_import ''os''], ImportFrom (Some ''sys'') [plain_import ''path'']]
      else Inl ''invalid syntax'')"

definition pkg_files :: "string list" where
  "pkg_files = [''/r/pkg.py'', ''/r/pkg/__init__.py'']"





section \<open>Properties of the module namer\<close>

lemma split_str_nonempty: "split_str c s \<noteq> []"
  by (induction s) (auto split: list.splits)








lemma get_module_name_parts:
  assumes "split_str sep (relpath file_path root) = parts"
  shows "get_module_name file_path root = Inr (module_name_of_segments parts)"
proof -
  have "parts \<noteq> []" using assms split_str_nonempty by metis
  then obtain ys l where parts: "parts = ys @ [l]"
    by (cases parts rule: rev_cases) auto
  show ?thesis
    using assms
    by (auto simp: get_module_name_def module_name_of_segments_def strip_py_def Let_def parts
        suffix_to_prefix)
qed

lemma get_module_name_total: "get_module_name file_path root = Inr (module_of file_path root)"
  by (simp add: module_of_def get_module_name_parts)





section \<open>Properties of the collector\<close>

lemma assign_all_Nil [simp]: "assign_all d [] = d"
  by (simp add: assign_all_def)

lemma assign_all_Cons [simp]: "assign_all d (kv # kvs) = assign_all (AList.update (fst kv) (snd kv) d) kvs"
  by (simp add: assign_all_def)

lemma assign_all_append: "assign_all d (xs @ ys) = assign_all (assign_all d xs) ys"
  by (simp add: assign_all_def)

lemma map_of_assign_all: "map_of (assign_all d kvs) = map_of d ++ map_of (rev kvs)"
proof (induction kvs arbitrary: d)
  case Nil
  then show ?case by simp
next
  case (Cons kv kvs)
  show ?case
    by (rule ext) (auto simp: Cons.IH update_conv' map_add_def split: option.splits)
qed


lemma distinct_assign_all: "distinct (map fst d) \<Longrightarrow> distinct (map fst (assign_all d kvs))"
  by (induction kvs arbitrary: d) (simp_all add: distinct_update)

lemma import_loop_ok:
  "mi module = Some t \<Longrightarrow>
   import_loop module mi names
     = Inr (mi(module \<mapsto> foldl (\<lambda>t a. t(local_name a \<mapsto> alias_name a)) t names))"
  by (induction names arbitrary: mi t) (simp_all add: set_nested_def map_upd_triv)

lemma import_from_loop_ok:
  "si module = Some t \<Longrightarrow>
   import_from_loop module m si names
     = Inr (si(module \<mapsto> foldl (\<lambda>t a. t(local_name a \<mapsto> (m, alias_name a))) t names))"
  by (induction names arbitrary: si t) (simp_all add: set_nested_def map_upd_triv)

lemma collect_item_assign:
  "collect_item file_path module cname af item
     = assign_all af (item_registrations file_path module cname item)"
  by (cases item) simp_all

lemma collect_items_assign:
  "foldl (collect_item file_path module cname) af cbody
     = assign_all af (concat (map (item_registrations file_path module cname) cbody))"
  by (induction cbody arbitrary: af) (simp_all add: collect_item_assign assign_all_append)

lemma collect_node_ok:
  assumes "module_imports st module = Some t1" and "symbol_imports st module = Some t2"
  shows "collect_node file_path module st node
           = Inr (st\<lparr>all_functions :=
                       assign_all (all_functions st) (node_registrations file_path module node),
                     module_imports := (module_imports st)(module \<mapsto> aliases_of_node t1 node),
                     symbol_imports := (symbol_imports st)(module \<mapsto> symbols_of_node t2 node)\<rparr>)"
proof -
  have idm: "(module_imports st)(module \<mapsto> t1) = module_imports st"
    using assms(1) by (simp add: map_upd_triv)
  have ids: "(symbol_imports st)(module \<mapsto> t2) = symbol_imports st"
    using assms(2) by (simp add: map_upd_triv)
  show ?thesis
    using assms
    by (cases node)
      (simp_all add: aliases_of_node_def symbols_of_node_def idm ids collect_items_assign
        import_loop_ok import_from_loop_ok)
qed

lemma body_loop_ok:
  assumes "module_imports st module = Some t1" and "symbol_imports st module = Some t2"
  shows "body_loop file_path module st tree_body
           = Inr (st\<lparr>all_functions :=
                       assign_all (all_functions st)
                         (concat (map (node_registrations file_path module) tree_body)),
                     module_imports := (module_imports st)(module \<mapsto> foldl aliases_of_node t1 tree_body),
                     symbol_imports := (symbol_imports st)(module \<mapsto> foldl symbols_of_node t2 tree_body)\<rparr>)"
  using assms
proof (induction tree_body arbitrary: st t1 t2)
  case Nil
  then show ?case by (simp add: map_upd_triv)
next
  case (Cons node nodes)
  define st' where "st' = st\<lparr>all_functions :=
                       assign_all (all_functions st) (node_registrations file_path module node),
                     module_imports := (module_imports st)(module \<mapsto> aliases_of_node t1 node),
                     symbol_imports := (symbol_imports st)(module \<mapsto> symbols_of_node t2 node)\<rparr>"
  have step: "collect_node file_path module st node = Inr st'"
    unfolding st'_def using Cons.prems by (rule collect_node_ok)
  have m1: "module_imports st' module = Some (aliases_of_node t1 node)"
    and m2: "symbol_imports st' module = Some (symbols_of_node t2 node)"
    by (simp_all add: st'_def)
  have "body_loop file_path module st (node # nodes) = body_loop file_path module st' nodes"
    by (simp add: step)
  also have "\<dots> = Inr (st'\<lparr>all_functions :=
                       assign_all (all_functions st')
                         (concat (map (node_registrations file_path module) nodes)),
                     module_imports := (module_imports st')(module \<mapsto> foldl aliases_of_node (aliases_of_node t1 node) nodes),
                     symbol_imports := (symbol_imports st')(module \<mapsto> foldl symbols_of_node (symbols_of_node t2 node) nodes)\<rparr>)"
    using m1 m2 by (rule Cons.IH)
  also have "\<dots> = Inr (st\<lparr>all_functions :=
                       assign_all (all_functions st)
                         (concat (map (node_registrations file_path module) (node # nodes))),
                     module_imports := (module_imports st)(module \<mapsto> foldl aliases_of_node t1 (node # nodes)),
                     symbol_imports := (symbol_imports st)(module \<mapsto> foldl symbols_of_node t2 (node # nodes))\<rparr>)"
    by (simp add: st'_def assign_all_append)
  finally show ?case .
qed

lemma files_loop_ok:
  "files_loop parse_file root st py_files = Inr (foldl (file_step parse_file root) st py_files)"
proof (induction py_files arbitrary: st)
  case Nil
  then show ?case by simp
next
  case (Cons file_path rest)
  show ?case
  proof (cases "parse_file file_path")
    case (Inl e)
    then show ?thesis
      by (simp add: get_module_name_total file_step_def Cons.IH Let_def)
  next
    case (Inr tree_body)
    let ?m = "module_of file_path root"
    let ?st1 = "st\<lparr>module_imports := (module_imports st)(?m \<mapsto> Map.empty),
                     symbol_imports := (symbol_imports st)(?m \<mapsto> Map.empty)\<rparr>"
    have "body_loop file_path ?m ?st1 tree_body = Inr (file_step parse_file root st file_path)"
      by (subst body_loop_ok [where ?t1.0 = Map.empty and ?t2.0 = Map.empty])
        (simp_all add: file_step_def Inr Let_def)
    then show ?thesis
      by (simp add: get_module_name_total Inr Cons.IH Let_def)
  qed
qed

lemma collect_ok:
  "collect_functions_and_imports parse_file py_files root
     = Inr (final_state parse_file root py_files)"
  by (simp add: collect_functions_and_imports_def files_loop_ok final_state_def initial_state_def)

lemma all_functions_file_step:
  "all_functions (file_step parse_file root st file_path)
     = assign_all (all_functions st) (file_registrations parse_file root file_path)"
  by (simp add: file_step_def file_registrations_def Let_def split: sum.splits)

lemma all_functions_steps:
  "all_functions (foldl (file_step parse_file root) st py_files)
     = assign_all (all_functions st) (registrations parse_file root py_files)"
  by (induction py_files arbitrary: st)
    (simp_all add: registrations_def all_functions_file_step assign_all_append)

lemma error_log_steps:
  "error_log (foldl (file_step parse_file root) st py_files)
     = error_log st @ failure_messages parse_file py_files"
  by (induction py_files arbitrary: st)
    (auto simp: failure_messages_def file_step_def Let_def split: sum.splits)

lemma all_functions_final:
  "all_functions (final_state parse_file root py_files)
     = assign_all [] (registrations parse_file root py_files)"
  by (simp add: final_state_def all_functions_steps initial_state_def)

lemma error_log_final:
  "error_log (final_state parse_file root py_files) = failure_messages parse_file py_files"
  by (simp add: final_state_def error_log_steps initial_state_def)

lemma distinct_final: "distinct (map fst (all_functions (final_state parse_file root py_files)))"
  by (simp add: all_functions_final distinct_assign_all)

section \<open>Properties of the import tables\<close>

lemma symbol_imports_file_step:
  "symbol_imports (file_step parse_file root st file_path)
     = (symbol_imports st)(module_of file_path root \<mapsto> file_symbols parse_file file_path)"
  by (simp add: file_step_def file_symbols_def Let_def split: sum.splits)

lemma module_imports_file_step:
  "module_imports (file_step parse_file root st file_path)
     = (module_imports st)(module_of file_path root \<mapsto> file_aliases parse_file file_path)"
  by (simp add: file_step_def file_aliases_def Let_def split: sum.splits)

lemma symbol_imports_steps:
  "symbol_imports (foldl (file_step parse_file root) st py_files) module
     = (case last_file_of root py_files module of
          None \<Rightarrow> symbol_imports st module
        | Some file_path \<Rightarrow> Some (file_symbols parse_file file_path))"
  by (induction py_files rule: rev_induct)
    (simp_all add: last_file_of_def symbol_imports_file_step)

lemma module_imports_steps:
  "module_imports (foldl (file_step parse_file root) st py_files) module
     = (case last_file_of root py_files module of
          None \<Rightarrow> module_imports st module
        | Some file_path \<Rightarrow> Some (file_aliases parse_file file_path))"
  by (induction py_files rule: rev_induct)
    (simp_all add: last_file_of_def module_imports_file_step)

lemma last_file_of_member:
  "file_path \<in> set py_files \<Longrightarrow> \<exists>f. last_file_of root py_files (module_of file_path root) = Some f"
  by (cases "last_file_of root py_files (module_of file_path root)")
    (auto simp: last_file_of_def find_None_iff)

lemma last_file_of_last:
  "\<forall>g \<in> set post. module_of g root \<noteq> module_of file_path root \<Longrightarrow>
   last_file_of root (pre @ file_path # post) (module_of file_path root) = Some file_path"
proof -
  assume a: "\<forall>g \<in> set post. module_of g root \<noteq> module_of file_path root"
  have "find (\<lambda>f. module_of f root = module_of file_path root) (rev post @ file_path # rev pre)
          = Some file_path"
    using a by (induction post rule: rev_induct) auto
  then show ?thesis by (simp add: last_file_of_def)
qed

section \<open>Properties of the resolver and of the call graph builder\<close>

lemma resolve_local:
  assumes "\<exists>c \<in> fst ` set functions. prefix (module @ ''.'') c \<and> last_segment c = name"
  shows "resolve_function_name name module mi si functions s2f
           = Some {c \<in> fst ` set functions. prefix (module @ ''.'') c \<and> last_segment c = name}"
proof -
  have eq: "set (filter (\<lambda>c. prefix (module @ ''.'') c \<and> last_segment c = name) (map fst functions))
          = {c \<in> fst ` set functions. prefix (module @ ''.'') c \<and> last_segment c = name}"
    by auto
  have "{c \<in> fst ` set functions. prefix (module @ ''.'') c \<and> last_segment c = name} \<noteq> {}"
    using assms by blast
  then show ?thesis
    by (simp add: resolve_function_name_def Let_def eq del: set_filter)
qed

lemma add_call_union:
  "add_call module mi si functions s2f called call_node
     = called \<union> add_call module mi si functions s2f {} call_node"
  by (auto simp: add_call_def split: expr.splits option.splits)

lemma foldl_add_call:
  "foldl (add_call module mi si functions s2f) called nodes
     = called \<union> (\<Union>n \<in> set nodes. add_call module mi si functions s2f {} n)"
proof (induction nodes arbitrary: called)
  case Nil
  then show ?case by simp
next
  case (Cons n nodes)
  show ?case
    by (simp add: Cons.IH) (subst add_call_union, blast)
qed

lemma add_call_Call:
  "add_call module mi si functions s2f {} (Call func as)
     = (case callee_name func of
          None \<Rightarrow> {}
        | Some name \<Rightarrow> if name = [] then {} else edges_of_name module mi si functions s2f name)"
  by (auto simp: add_call_def edges_of_name_def split: option.splits)

lemma add_call_other:
  "(\<forall>func as. call_node \<noteq> Call func as) \<Longrightarrow> add_call module mi si functions s2f called call_node = called"
  by (cases call_node) (simp_all add: add_call_def)

lemma called_by_names:
  "called_by module mi si functions s2f node
     = (\<Union>name \<in> called_names node. edges_of_name module mi si functions s2f name)"
proof -
  have "(\<Union>n \<in> set (walk node). add_call module mi si functions s2f {} n)
          = (\<Union>name \<in> called_names node. edges_of_name module mi si functions s2f name)"
  proof (intro equalityI subsetI)
    fix x
    assume "x \<in> (\<Union>n \<in> set (walk node). add_call module mi si functions s2f {} n)"
    then obtain n where n: "n \<in> set (walk node)" and x: "x \<in> add_call module mi si functions s2f {} n"
      by blast
    from x obtain func as where c: "n = Call func as"
      by (cases n) (auto simp: add_call_def)
    with x obtain name where "callee_name func = Some name" "name \<noteq> []"
      "x \<in> edges_of_name module mi si functions s2f name"
      by (auto simp: add_call_Call split: option.splits if_splits)
    with n c show "x \<in> (\<Union>name \<in> called_names node. edges_of_name module mi si functions s2f name)"
      by (auto simp: called_names_def)
  next
    fix x
    assume "x \<in> (\<Union>name \<in> called_names node. edges_of_name module mi si functions s2f name)"
    then obtain name func as where "name \<noteq> []" "Call func as \<in> set (walk node)"
      "callee_name func = Some name" "x \<in> edges_of_name module mi si functions s2f name"
      by (auto simp: called_names_def)
    then have "x \<in> add_call module mi si functions s2f {} (Call func as)"
      by (simp add: add_call_Call)
    with \<open>Call func as \<in> set (walk node)\<close>
    show "x \<in> (\<Union>n \<in> set (walk node). add_call module mi si functions s2f {} n)"
      by blast
  qed
  then show ?thesis
    by (simp add: called_by_def foldl_add_call)
qed

lemma edges_of_name_subset: "edges_of_name module mi si functions s2f name \<subseteq> fst ` set functions"
  by (auto simp: edges_of_name_def split: option.splits)

lemma called_by_subset: "called_by module mi si functions s2f node \<subseteq> fst ` set functions"
  using edges_of_name_subset by (fastforce simp: called_by_names)

lemma details_loop_ok:
  "details_loop lib root mi si functions s2f function_details items
     = Inr (assign_all function_details (map (detail_of lib root mi si functions s2f) items))"
proof (induction items arbitrary: function_details)
  case Nil
  then show ?case by simp
next
  case (Cons item items)
  obtain qname file_path node class_name where item: "item = (qname, (file_path, node, class_name))"
    by (cases item) auto
  show ?case
    by (simp add: item get_module_name_total Cons.IH detail_of_def)
qed

lemma build_ok:
  "build_function_call_graph lib py_files root functions mi si
     = Inr (assign_all [] (map (detail_of lib root mi si functions (reverse_index functions)) functions))"
  by (simp add: build_function_call_graph_def details_loop_ok)

lemma set_update_subset: "set (AList.update k v d) \<subseteq> insert (k, v) (set d)"
  by (induction d) auto

lemma set_assign_all_subset: "set (assign_all d kvs) \<subseteq> set d \<union> set kvs"
proof (induction kvs arbitrary: d)
  case Nil
  then show ?case by simp
next
  case (Cons kv kvs)
  have "set (assign_all (AList.update (fst kv) (snd kv) d) kvs)
          \<subseteq> set (AList.update (fst kv) (snd kv) d) \<union> set kvs"
    by (rule Cons.IH)
  also have "\<dots> \<subseteq> insert kv (set d) \<union> set kvs"
    using set_update_subset [of "fst kv" "snd kv" d] by auto
  finally show ?case by auto
qed

lemma update_fresh: "k \<notin> fst ` set d \<Longrightarrow> AList.update k v d = d @ [(k, v)]"
  by (induction d) auto

lemma assign_all_distinct:
  "distinct (map fst (d @ kvs)) \<Longrightarrow> assign_all d kvs = d @ kvs"
proof (induction kvs arbitrary: d)
  case Nil
  then show ?case by simp
next
  case (Cons kv kvs)
  have fresh: "fst kv \<notin> fst ` set d"
    using Cons.prems by auto
  have "distinct (map fst ((d @ [kv]) @ kvs))"
    using Cons.prems by simp
  then have "assign_all (d @ [kv]) kvs = (d @ [kv]) @ kvs"
    by (rule Cons.IH)
  then show ?case
    using fresh by (cases kv) (simp add: update_fresh)
qed

lemma fst_detail_of: "fst (detail_of lib root mi si functions s2f item) = fst item"
  by (simp add: detail_of_def split: prod.splits)

lemma build_distinct:
  assumes "distinct (map fst functions)"
  shows "build_function_call_graph lib py_files root functions mi si
     = Inr (map (detail_of lib root mi si functions (reverse_index functions)) functions)"
  using assign_all_distinct [of "[]" "map (detail_of lib root mi si functions (reverse_index functions)) functions"]
    assms
  by (simp add: build_ok comp_def fst_detail_of)

section \<open>Resolver precedence\<close>

text \<open>
  C1. When some registered qualified name starts with the calling module followed by a dot
  and has the bare name as its last segment, the resolver returns exactly the set of these
  local matches, whatever the import tables and the reverse index hold.
\<close>

theorem resolver_precedence:
  assumes "c \<in> fst ` set functions" and "prefix (module @ ''.'') c" and "last_segment c = name"
  shows "resolve_function_name name module mod_imports sym_imports functions symbol_to_func
           = Some {c \<in> fst ` set functions. prefix (module @ ''.'') c \<and> last_segment c = name}"
  using assms by (intro resolve_local) blast

theorem resolver_precedence_witness:
  "resolve_function_name ''helper'' ''a'' Map.empty helper_symbols helper_registry
       (reverse_index helper_registry) = Some {''a.helper''}
   \<and> reverse_index helper_registry ''helper'' = Some {''a.helper'', ''b.helper''}
   \<and> helper_symbols ''a'' = Some [''helper'' \<mapsto> (Some ''b'', ''helper'')]"
proof -
  have 1: "''a.helper'' \<in> fst ` set helper_registry"
    by (simp add: helper_registry_def)
  have 2: "prefix (''a'' @ ''.'') ''a.helper''"
    by simp
  have 3: "last_segment ''a.helper'' = ''helper''"
    by (simp add: last_segment_def)
  have 4: "{c \<in> fst ` set helper_registry. prefix (''a'' @ ''.'') c \<and> last_segment c = ''helper''}
             = {''a.helper''}"
    by (auto simp: helper_registry_def last_segment_def)
  have 5: "reverse_index helper_registry ''helper'' = Some {''a.helper'', ''b.helper''}"
    by code_simp
  have 6: "helper_symbols ''a'' = Some [''helper'' \<mapsto> (Some ''b'', ''helper'')]"
    by (simp add: helper_symbols_def)
  from resolver_precedence [OF 1 2 3, of Map.empty helper_symbols "reverse_index helper_registry"]
  have "resolve_function_name ''helper'' ''a'' Map.empty helper_symbols helper_registry
       (reverse_index helper_registry) = Some {''a.helper''}"
    by (simp only: 4)
  with 5 6 show ?thesis by blast
qed

section \<open>Closed-world call edges\<close>

lemma add_call_idem:
  "add_call module mi si functions s2f (add_call module mi si functions s2f called call_node) call_node
     = add_call module mi si functions s2f called call_node"
proof -
  define once where "once = add_call module mi si functions s2f called call_node"
  have "add_call module mi si functions s2f once call_node
          = once \<union> add_call module mi si functions s2f {} call_node"
    by (rule add_call_union)
  moreover have "once = called \<union> add_call module mi si functions s2f {} call_node"
    unfolding once_def by (rule add_call_union)
  ultimately show ?thesis
    unfolding once_def by blast
qed

lemma add_call_unregistered:
  assumes "resolve_function_name name module mi si functions s2f = Some resolved"
    and "resolved \<inter> fst ` set functions = {}"
  shows "add_call module mi si functions s2f called (Call (Name name) as) = called"
  using assms by (simp add: add_call_def)

lemma add_call_unresolved:
  assumes "resolve_function_name name module mi si functions s2f = None"
  shows "add_call module mi si functions s2f called (Call (Name name) as) = called"
  using assms by (simp add: add_call_def)

lemma build_calls_subset:
  assumes "build_function_call_graph lib py_files root functions mi si = Inr function_details"
    and "(qname, d) \<in> set function_details"
  shows "detail_calls d \<subseteq> fst ` set functions"
proof -
  let ?items = "map (detail_of lib root mi si functions (reverse_index functions)) functions"
  have "function_details = assign_all [] ?items"
    using assms(1) by (simp add: build_ok)
  moreover have "set (assign_all [] ?items) \<subseteq> set ?items"
    using set_assign_all_subset [of "[]" ?items] by simp
  ultimately have "(qname, d) \<in> set ?items"
    using assms(2) by blast
  then obtain item where "item \<in> set functions"
    and "(qname, d) = detail_of lib root mi si functions (reverse_index functions) item"
    by auto
  then show ?thesis
    using called_by_subset by (auto simp: detail_of_def split: prod.splits)
qed

text \<open>
  C2. In the output of the call graph builder every call-edge set contains only keys of
  the registry. An edge set is a set: processing the same call node a second time changes
  nothing. A call whose resolution has no name in the registry, or no resolution at all,
  leaves the edge set unchanged.
\<close>

theorem closed_world_call_edges:
  "(build_function_call_graph lib py_files root functions mod_imports sym_imports = Inr function_details
      \<and> (qname, d) \<in> set function_details
      \<longrightarrow> detail_calls d \<subseteq> fst ` set functions)
   \<and> add_call module mod_imports sym_imports functions symbol_to_func
        (add_call module mod_imports sym_imports functions symbol_to_func called call_node) call_node
      = add_call module mod_imports sym_imports functions symbol_to_func called call_node
   \<and> (resolve_function_name name module mod_imports sym_imports functions symbol_to_func = Some resolved
        \<and> resolved \<inter> fst ` set functions = {}
      \<longrightarrow> add_call module mod_imports sym_imports functions symbol_to_func called (Call (Name name) as)
            = called)
   \<and> (resolve_function_name name module mod_imports sym_imports functions symbol_to_func = None
      \<longrightarrow> add_call module mod_imports sym_imports functions symbol_to_func called (Call (Name name) as)
            = called)"
proof (intro conjI impI)
  assume "build_function_call_graph lib py_files root functions mod_imports sym_imports
            = Inr function_details \<and> (qname, d) \<in> set function_details"
  then show "detail_calls d \<subseteq> fst ` set functions"
    by (elim conjE) (rule build_calls_subset)
next
  show "add_call module mod_imports sym_imports functions symbol_to_func
          (add_call module mod_imports sym_imports functions symbol_to_func called call_node) call_node
        = add_call module mod_imports sym_imports functions symbol_to_func called call_node"
    by (rule add_call_idem)
next
  assume "resolve_function_name name module mod_imports sym_imports functions symbol_to_func
            = Some resolved \<and> resolved \<inter> fst ` set functions = {}"
  then show "add_call module mod_imports sym_imports functions symbol_to_func called
               (Call (Name name) as) = called"
    by (elim conjE) (rule add_call_unregistered)
next
  assume "resolve_function_name name module mod_imports sym_imports functions symbol_to_func = None"
  then show "add_call module mod_imports sym_imports functions symbol_to_func called
               (Call (Name name) as) = called"
    by (rule add_call_unresolved)
qed

theorem closed_world_call_edges_witness:
  "build_function_call_graph name_lib [] ''/r'' caller_registry Map.empty Map.empty
     = Inr [(''m.caller'', \<lparr>detail_args = [], detail_return = ''Any'', detail_calls = {''m.target''}\<rparr>),
            (''m.target'', \<lparr>detail_args = [], detail_return = ''Any'', detail_calls = {}\<rparr>)]
   \<and> {''m.target''} \<subseteq> fst ` set caller_registry
   \<and> resolve_function_name ''print'' ''m'' Map.empty Map.empty caller_registry
         (reverse_index caller_registry) = None
   \<and> add_call ''m'' Map.empty Map.empty caller_registry (reverse_index caller_registry)
         {''m.target''} (Call (Name ''print'') [Name ''x'']) = {''m.target''}
   \<and> resolve_function_name ''ext'' ''m'' Map.empty Map.empty caller_registry
         [''ext'' \<mapsto> {''lib.ext''}] = Some {''lib.ext''}
   \<and> add_call ''m'' Map.empty Map.empty caller_registry [''ext'' \<mapsto> {''lib.ext''}]
         {''m.target''} (Call (Name ''ext'') []) = {''m.target''}"
proof -
  let ?d = "\<lparr>detail_args = [], detail_return = ''Any'', detail_calls = {''m.target''}\<rparr>"
  let ?fd = "[(''m.caller'', ?d),
              (''m.target'', \<lparr>detail_args = [], detail_return = ''Any'', detail_calls = {}\<rparr>)]"
  have run: "build_function_call_graph name_lib [] ''/r'' caller_registry Map.empty Map.empty = Inr ?fd"
    by code_simp
  have none: "resolve_function_name ''print'' ''m'' Map.empty Map.empty caller_registry
                (reverse_index caller_registry) = None"
    by code_simp
  have ext: "resolve_function_name ''ext'' ''m'' Map.empty Map.empty caller_registry
               [''ext'' \<mapsto> {''lib.ext''}] = Some {''lib.ext''}"
    by code_simp
  have absent: "{''lib.ext''} \<inter> fst ` set caller_registry = {}"
    by code_simp
  note first = closed_world_call_edges
    [where lib = name_lib and py_files = "[]" and root = "''/r''" and ?functions = caller_registry
       and mod_imports = Map.empty and sym_imports = Map.empty and function_details = ?fd
       and qname = "''m.caller''" and d = ?d and module = "''m''"
       and symbol_to_func = "reverse_index caller_registry" and called = "{''m.target''}"
       and name = "''print''" and as = "[Name ''x'']"]
  note second = closed_world_call_edges
    [where ?functions = caller_registry and mod_imports = Map.empty and sym_imports = Map.empty
       and module = "''m''" and symbol_to_func = "[''ext'' \<mapsto> {''lib.ext''}]"
       and called = "{''m.target''}" and name = "''ext''" and resolved = "{''lib.ext''}"
       and as = "[]"]
  have sub: "{''m.target''} \<subseteq> fst ` set caller_registry"
    using first run by simp
  have a1: "add_call ''m'' Map.empty Map.empty caller_registry (reverse_index caller_registry)
              {''m.target''} (Call (Name ''print'') [Name ''x'']) = {''m.target''}"
    using first none by blast
  have a2: "add_call ''m'' Map.empty Map.empty caller_registry [''ext'' \<mapsto> {''lib.ext''}]
              {''m.target''} (Call (Name ''ext'') []) = {''m.target''}"
    using second ext absent by blast
  from run sub none a1 ext a2 show ?thesis by blast
qed

section \<open>Callee-name extraction\<close>

lemma walk_expr_self: "e \<in> set (walk_expr e)"
  by (cases e) simp_all

lemma walk_expr_closed: "x \<in> set (walk_expr y) \<Longrightarrow> set (walk_expr x) \<subseteq> set (walk_expr y)"
  by (induction y arbitrary: x) (auto, blast+)

lemma walk_closed_Nil: "walk_closed []"
  by (simp add: walk_closed_def)

lemma walk_closed_append: "walk_closed xs \<Longrightarrow> walk_closed ys \<Longrightarrow> walk_closed (xs @ ys)"
  by (auto simp: walk_closed_def)

lemma walk_closed_concat: "(\<And>y. y \<in> set ys \<Longrightarrow> walk_closed (f y)) \<Longrightarrow> walk_closed (concat (map f ys))"
  by (fastforce simp: walk_closed_def)

lemma walk_closed_expr: "walk_closed (walk_expr e)"
  using walk_expr_closed by (simp add: walk_closed_def)

lemma walk_closed_opt: "walk_closed (walk_opt r)"
  by (cases r) (simp_all add: walk_opt_def walk_closed_Nil walk_closed_expr)

lemma walk_closed_arg: "walk_closed (walk_arg a)"
  by (simp add: walk_arg_def walk_closed_opt)

lemma walk_closed_arg_opt: "walk_closed (walk_arg_opt r)"
  by (cases r) (simp_all add: walk_arg_opt_def walk_closed_Nil walk_closed_arg)

lemma walk_closed_arguments: "walk_closed (walk_arguments a)"
  unfolding walk_arguments_def
  by (intro walk_closed_append walk_closed_concat walk_closed_arg walk_closed_arg_opt
      walk_closed_opt walk_closed_expr)

lemma walk_closed_stmt: "walk_closed (walk_stmt s)"
  and walk_closed_funcdef: "walk_closed (walk node)"
proof (induction s and node)
  case (FunctionDef x)
  then show ?case by simp
next
  case (AsyncFunctionDef x)
  then show ?case by simp
next
  case (ClassDef cname bases cbody decos)
  then show ?case
    by (simp del: set_concat) (intro walk_closed_append walk_closed_concat walk_closed_expr)
next
  case (Import x)
  then show ?case by (simp add: walk_closed_Nil)
next
  case (ImportFrom x1 x2)
  then show ?case by (simp add: walk_closed_Nil)
next
  case (OtherStmt es ss)
  then show ?case
    by (simp del: set_concat) (intro walk_closed_append walk_closed_concat walk_closed_expr)
next
  case (FuncDef n a fbody decos r)
  then show ?case
    by (simp del: set_concat)
      (intro walk_closed_append walk_closed_concat walk_closed_expr walk_closed_arguments
        walk_closed_opt)
qed





lemma called_names_code [code]:
  "called_names node =
     set (filter (\<lambda>n. n \<noteq> [])
            (concat (map (\<lambda>e. case e of
                                  Call func as \<Rightarrow> (case callee_name func of Some n \<Rightarrow> [n] | None \<Rightarrow> [])
                                | _ \<Rightarrow> [])
                       (walk node))))"
proof (intro equalityI subsetI)
  fix n
  assume "n \<in> called_names node"
  then obtain func as where "n \<noteq> []" "Call func as \<in> set (walk node)" "callee_name func = Some n"
    by (auto simp: called_names_def)
  then show "n \<in> set (filter (\<lambda>n. n \<noteq> [])
            (concat (map (\<lambda>e. case e of
                                  Call func as \<Rightarrow> (case callee_name func of Some n \<Rightarrow> [n] | None \<Rightarrow> [])
                                | _ \<Rightarrow> [])
                       (walk node))))"
    by force
next
  fix n
  assume "n \<in> set (filter (\<lambda>n. n \<noteq> [])
            (concat (map (\<lambda>e. case e of
                                  Call func as \<Rightarrow> (case callee_name func of Some n \<Rightarrow> [n] | None \<Rightarrow> [])
                                | _ \<Rightarrow> [])
                       (walk node))))"
  then show "n \<in> called_names node"
    by (auto simp: called_names_def split: expr.splits option.splits)
qed



section \<open>Symbol-import resolution\<close>

lemma resolve_symbol:
  assumes "\<not> (\<exists>c \<in> fst ` set functions. prefix (module @ ''.'') c \<and> last_segment c = name)"
    and "si module = Some table" and "table name = Some (from_mod, orig_name)"
    and "k0 \<in> fst ` set functions" and "suffix (''.'' @ orig_name) k0"
    and "prefix (case from_mod of None \<Rightarrow> [] | Some m \<Rightarrow> m) k0"
  shows "resolve_function_name name module mi si functions s2f
           = Some {k \<in> fst ` set functions. suffix (''.'' @ orig_name) k
                     \<and> prefix (case from_mod of None \<Rightarrow> [] | Some m \<Rightarrow> m) k}"
proof -
  have local: "set (filter (\<lambda>c. prefix (module @ ''.'') c \<and> last_segment c = name) (map fst functions)) = {}"
    using assms(1) by auto
  have eq: "set (filter (\<lambda>k. suffix (''.'' @ orig_name) k
                              \<and> prefix (case from_mod of None \<Rightarrow> [] | Some m \<Rightarrow> m) k) (map fst functions))
              = {k \<in> fst ` set functions. suffix (''.'' @ orig_name) k
                     \<and> prefix (case from_mod of None \<Rightarrow> [] | Some m \<Rightarrow> m) k}"
    by auto
  have ne: "{k \<in> fst ` set functions. suffix (''.'' @ orig_name) k
                     \<and> prefix (case from_mod of None \<Rightarrow> [] | Some m \<Rightarrow> m) k} \<noteq> {}"
    using assms(4-6) by blast
  show ?thesis
    unfolding resolve_function_name_def Let_def local eq
    using ne assms(2,3) by simp
qed

lemma map_of_map_entry:
  assumes "distinct (map fst xs)" and "(k, v) \<in> set xs" and "\<And>x. fst (f x) = fst x"
  shows "map_of (map f xs) k = Some (snd (f (k, v)))"
proof -
  have "distinct (map fst (map f xs))"
    using assms(1,3) by (simp add: comp_def)
  moreover have "(k, snd (f (k, v))) \<in> set (map f xs)"
  proof -
    have "f (k, v) \<in> set (map f xs)" using assms(2) by auto
    moreover have "f (k, v) = (k, snd (f (k, v)))"
      using assms(3) [of "(k, v)"] by (cases "f (k, v)") simp
    ultimately show ?thesis by simp
  qed
  ultimately show ?thesis by (rule map_of_is_SomeI)
qed

lemma build_entry:
  assumes "build_function_call_graph lib py_files root functions mi si = Inr function_details"
    and "distinct (map fst functions)"
    and "(qname, (file_path, node, class_name)) \<in> set functions"
  shows "map_of function_details qname
           = Some \<lparr>detail_args = map (\<lambda>a. (arg a, get_arg_type lib a)) (args (def_args node)),
                   detail_return = get_return_type lib node,
                   detail_calls = called_by (module_of file_path root) mi si functions
                                    (reverse_index functions) node\<rparr>"
proof -
  have "function_details = map (detail_of lib root mi si functions (reverse_index functions)) functions"
    using assms(1,2) by (simp add: build_distinct)
  then have "map_of function_details qname
               = Some (snd (detail_of lib root mi si functions (reverse_index functions)
                              (qname, (file_path, node, class_name))))"
    using assms(2,3) by (simp add: map_of_map_entry fst_detail_of)
  then show ?thesis by (simp add: detail_of_def)
qed

lemma analyse_ok:
  "analyse lib parse_file py_files root
     = Inr \<lparr>collected_state = final_state parse_file root py_files,
            details = map (detail_of lib root
                             (module_imports (final_state parse_file root py_files))
                             (symbol_imports (final_state parse_file root py_files))
                             (all_functions (final_state parse_file root py_files))
                             (reverse_index (all_functions (final_state parse_file root py_files))))
                        (all_functions (final_state parse_file root py_files)),
            report = write_markdown root
                       (map (detail_of lib root
                             (module_imports (final_state parse_file root py_files))
                             (symbol_imports (final_state parse_file root py_files))
                             (all_functions (final_state parse_file root py_files))
                             (reverse_index (all_functions (final_state parse_file root py_files))))
                          (all_functions (final_state parse_file root py_files)))
                       (all_functions (final_state parse_file root py_files))\<rparr>"
  by (simp add: analyse_def collect_ok build_distinct distinct_final)

lemma registry_of_analyse:
  "registry_of (analyse lib parse_file py_files root)
     = all_functions (final_state parse_file root py_files)"
  by (simp add: registry_of_def analyse_ok)

lemma details_of_analyse:
  assumes "(qname, (file_path, node, class_name)) \<in> set (registry_of (analyse lib parse_file py_files root))"
  shows "\<exists>a. analyse lib parse_file py_files root = Inr a
           \<and> map_of (details a) qname
               = Some \<lparr>detail_args = map (\<lambda>a. (arg a, get_arg_type lib a)) (args (def_args node)),
                        detail_return = get_return_type lib node,
                        detail_calls =
                          called_by (module_of file_path root)
                            (module_imports (collected_state a)) (symbol_imports (collected_state a))
                            (all_functions (collected_state a))
                            (reverse_index (all_functions (collected_state a))) node\<rparr>"
proof -
  let ?st = "final_state parse_file root py_files"
  let ?f = "detail_of lib root (module_imports ?st) (symbol_imports ?st) (all_functions ?st)
              (reverse_index (all_functions ?st))"
  have mem: "(qname, (file_path, node, class_name)) \<in> set (all_functions ?st)"
    using assms by (simp add: registry_of_analyse)
  have "map_of (map ?f (all_functions ?st)) qname = Some (snd (?f (qname, (file_path, node, class_name))))"
    using distinct_final mem by (rule map_of_map_entry) (rule fst_detail_of)
  then show ?thesis
    by (simp add: analyse_ok detail_of_def)
qed

section \<open>Parameter and return capture\<close>

text \<open>
  C7, as amended. After a run, the parameters recorded for a registered definition are the
  pairs of name and type text of its positional-or-keyword parameters (\<open>node.args.args\<close>),
  in order, and the recorded return type is the text of the return annotation; where there
  is no annotation the text is \<open>Any\<close>. The type text is what the \<open>ast\<close> library prints.
\<close>

theorem parameter_and_return_capture:
  assumes "(qname, (file_path, node, class_name))
             \<in> set (registry_of (analyse lib parse_file py_files root))"
  shows "args_of (analyse lib parse_file py_files root) qname
           = Some (map (\<lambda>a. (arg a, case annotation a of
                                          None \<Rightarrow> ''Any''
                                        | Some e \<Rightarrow> annotation_text lib e))
                      (args (def_args node)))
         \<and> return_of (analyse lib parse_file py_files root) qname
           = Some (case returns node of None \<Rightarrow> ''Any'' | Some e \<Rightarrow> annotation_text lib e)"
proof -
  from details_of_analyse [OF assms] obtain a where
    run: "analyse lib parse_file py_files root = Inr a"
    and d: "map_of (details a) qname
               = Some \<lparr>detail_args = map (\<lambda>a. (arg a, get_arg_type lib a)) (args (def_args node)),
                        detail_return = get_return_type lib node,
                        detail_calls =
                          called_by (module_of file_path root)
                            (module_imports (collected_state a)) (symbol_imports (collected_state a))
                            (all_functions (collected_state a))
                            (reverse_index (all_functions (collected_state a))) node\<rparr>"
    by blast
  have t: "get_arg_type lib = (\<lambda>a. case annotation a of
                                          None \<Rightarrow> ''Any''
                                        | Some e \<Rightarrow> annotation_text lib e)"
    by (rule ext) (simp add: get_arg_type_def annotation_text_def split: option.splits)
  have r: "get_return_type lib node
             = (case returns node of None \<Rightarrow> ''Any'' | Some e \<Rightarrow> annotation_text lib e)"
    by (simp add: get_return_type_def annotation_text_def split: option.splits)
  show ?thesis
    by (simp add: args_of_def return_of_def run d t r)
qed

theorem parameter_and_return_capture_witness:
  "(''m.f'', (''/r/m.py'', typed_f, None))
     \<in> set (registry_of (analyse name_lib typed_parse [''/r/m.py''] ''/r''))
   \<and> args_of (analyse name_lib typed_parse [''/r/m.py''] ''/r'') ''m.f''
       = Some [(''x'', ''Any''), (''y'', ''int'')]
   \<and> return_of (analyse name_lib typed_parse [''/r/m.py''] ''/r'') ''m.f'' = Some ''str''"
proof -
  have mem: "(''m.f'', (''/r/m.py'', typed_f, None))
               \<in> set (registry_of (analyse name_lib typed_parse [''/r/m.py''] ''/r''))"
    by code_simp
  have a: "map (\<lambda>a. (arg a, case annotation a of
                                          None \<Rightarrow> ''Any''
                                        | Some e \<Rightarrow> annotation_text name_lib e))
                      (args (def_args typed_f)) = [(''x'', ''Any''), (''y'', ''int'')]"
    by (simp add: typed_f_def annotation_text_def name_lib_def)
  have r: "(case returns typed_f of None \<Rightarrow> ''Any'' | Some e \<Rightarrow> annotation_text name_lib e) = ''str''"
    by (simp add: typed_f_def annotation_text_def name_lib_def)
  from parameter_and_return_capture [OF mem] mem show ?thesis
    by (simp only: a r)
qed

theorem parameter_and_return_capture_counterexample:
  "args_of (analyse name_lib typed_parse [''/r/m.py''] ''/r'') ''m.g'' = Some [(''w'', ''Any'')]
   \<and> args_of (analyse name_lib typed_parse [''/r/m.py''] ''/r'') ''m.g'' \<noteq> Some [(''w'', ''any'')]
   \<and> return_of (analyse name_lib typed_parse [''/r/m.py''] ''/r'') ''m.g'' = Some ''Any''
   \<and> return_of (analyse name_lib typed_parse [''/r/m.py''] ''/r'') ''m.g'' \<noteq> Some ''any''"
  by code_simp

section \<open>Symbol imports\<close>

text \<open>
  C3, as amended. In a registry with distinct keys, let a definition of module \<open>module\<close>
  call the bare name \<open>name\<close>, let no registered name be a local match for it, let the
  symbol table of the module map \<open>name\<close> to the origin \<open>(origin, name)\<close>, and let
  \<open>origin.name\<close> be registered. Then the edge set of the definition contains
  \<open>origin.name\<close> and every registered name that ends with \<open>.name\<close> and starts with the
  text \<open>origin\<close>; when \<open>name\<close> is the only bare name called, the edge set is exactly
  this set.
\<close>

theorem symbol_import_resolution:
  assumes "build_function_call_graph lib py_files root registry mod_imports sym_imports
             = Inr function_details"
    and "distinct (map fst registry)"
    and "(qname, (file_path, node, class_name)) \<in> set registry"
    and "get_module_name file_path root = Inr module"
    and "\<not> (\<exists>c \<in> fst ` set registry. prefix (module @ ''.'') c \<and> last_segment c = name)"
    and "sym_imports module = Some table"
    and "table name = Some (Some origin, name)"
    and "origin @ ''.'' @ name \<in> fst ` set registry"
    and "name \<in> called_names node"
  shows "\<exists>d. map_of function_details qname = Some d
           \<and> origin @ ''.'' @ name \<in> detail_calls d
           \<and> {k \<in> fst ` set registry. suffix (''.'' @ name) k \<and> prefix origin k} \<subseteq> detail_calls d
           \<and> (called_names node = {name}
                \<longrightarrow> detail_calls d
                      = {k \<in> fst ` set registry. suffix (''.'' @ name) k \<and> prefix origin k})"
proof -
  let ?target = "{k \<in> fst ` set registry. suffix (''.'' @ name) k \<and> prefix origin k}"
  let ?s2f = "reverse_index registry"
  have m: "module_of file_path root = module"
    using assms(4) by (simp add: get_module_name_total)
  have "resolve_function_name name module mod_imports sym_imports registry ?s2f
          = Some {k \<in> fst ` set registry. suffix (''.'' @ name) k
                     \<and> prefix (case Some origin of None \<Rightarrow> [] | Some m \<Rightarrow> m) k}"
    using assms(5,6,7,8)
    by (rule resolve_symbol) (simp_all add: suffix_def)
  then have edges: "edges_of_name module mod_imports sym_imports registry ?s2f name = ?target"
    by (auto simp: edges_of_name_def)
  let ?d = "\<lparr>detail_args = map (\<lambda>a. (arg a, get_arg_type lib a)) (args (def_args node)),
             detail_return = get_return_type lib node,
             detail_calls = called_by module mod_imports sym_imports registry ?s2f node\<rparr>"
  have d: "map_of function_details qname = Some ?d"
    using build_entry [OF assms(1,2,3)] by (simp add: m)
  have calls: "called_by module mod_imports sym_imports registry ?s2f node
                 = (\<Union>n \<in> called_names node. edges_of_name module mod_imports sym_imports registry ?s2f n)"
    by (rule called_by_names)
  have sub: "?target \<subseteq> called_by module mod_imports sym_imports registry ?s2f node"
    using assms(9) edges unfolding calls by blast
  have mem: "origin @ ''.'' @ name \<in> ?target"
    using assms(8) by (simp add: suffix_def)
  have only: "called_names node = {name}
                \<Longrightarrow> called_by module mod_imports sym_imports registry ?s2f node = ?target"
    unfolding calls using edges by simp
  show ?thesis
  proof (intro exI [of _ ?d] conjI impI)
    show "map_of function_details qname = Some ?d"
      by (rule d)
    show "origin @ ''.'' @ name \<in> detail_calls ?d"
      using subsetD [OF sub mem] by simp
    show "?target \<subseteq> detail_calls ?d"
      using sub by simp
    assume "called_names node = {name}"
    then show "detail_calls ?d = ?target"
      using only by simp
  qed
qed

theorem symbol_import_resolution_witness:
  "build_function_call_graph name_lib [] ''/r'' util_registry Map.empty util_symbols
     = Inr [(''a.func'', \<lparr>detail_args = [], detail_return = ''Any'',
                           detail_calls = {''b.util'', ''bar.util''}\<rparr>),
            (''b.util'', \<lparr>detail_args = [], detail_return = ''Any'', detail_calls = {}\<rparr>),
            (''bar.util'', \<lparr>detail_args = [], detail_return = ''Any'', detail_calls = {}\<rparr>),
            (''c.util'', \<lparr>detail_args = [], detail_return = ''Any'', detail_calls = {}\<rparr>)]
   \<and> {k \<in> fst ` set util_registry. suffix (''.'' @ ''util'') k \<and> prefix ''b'' k}
       = {''b.util'', ''bar.util''}
   \<and> called_names (plain_def ''func'' [expr_stmt (Call (Name ''util'') [])]) = {''util''}"
proof -
  let ?node = "plain_def ''func'' [expr_stmt (Call (Name ''util'') [])]"
  let ?fd = "[(''a.func'', \<lparr>detail_args = [], detail_return = ''Any'',
                           detail_calls = {''b.util'', ''bar.util''}\<rparr>),
            (''b.util'', \<lparr>detail_args = [], detail_return = ''Any'', detail_calls = {}\<rparr>),
            (''bar.util'', \<lparr>detail_args = [], detail_return = ''Any'', detail_calls = {}\<rparr>),
            (''c.util'', \<lparr>detail_args = [], detail_return = ''Any'', detail_calls = {}\<rparr>)]"
  have run: "build_function_call_graph name_lib [] ''/r'' util_registry Map.empty util_symbols = Inr ?fd"
    by code_simp
  have dist: "distinct (map fst util_registry)"
    by code_simp
  have mem: "(''a.func'', (''/r/a.py'', ?node, None)) \<in> set util_registry"
    by (simp add: util_registry_def)
  have modl: "get_module_name ''/r/a.py'' ''/r'' = Inr ''a''"
    by code_simp
  have nolocal: "\<not> (\<exists>c \<in> fst ` set util_registry. prefix (''a'' @ ''.'') c \<and> last_segment c = ''util'')"
    by code_simp
  have tab: "util_symbols ''a'' = Some [''util'' \<mapsto> (Some ''b'', ''util'')]"
    by (simp add: util_symbols_def)
  have ent: "[''util'' \<mapsto> (Some ''b'', ''util'')] ''util'' = Some (Some ''b'', ''util'')"
    by simp
  have reg: "''b'' @ ''.'' @ ''util'' \<in> fst ` set util_registry"
    by code_simp
  have names: "called_names ?node = {''util''}"
    by code_simp
  then have called: "''util'' \<in> called_names ?node"
    by simp
  have target: "{k \<in> fst ` set util_registry. suffix (''.'' @ ''util'') k \<and> prefix ''b'' k}
                  = {''b.util'', ''bar.util''}"
    by (auto simp: util_registry_def suffix_to_prefix)
  from symbol_import_resolution [OF run dist mem modl nolocal tab ent reg called]
  obtain d where "map_of ?fd ''a.func'' = Some d"
    and "called_names ?node = {''util''}
           \<longrightarrow> detail_calls d
                 = {k \<in> fst ` set util_registry. suffix (''.'' @ ''util'') k \<and> prefix ''b'' k}"
    by blast
  with run target names show ?thesis by blast
qed

theorem symbol_import_resolution_counterexample:
  "calls_of (analyse name_lib util_parse util_files ''/r'') ''a.func'' = Some {''b.util'', ''bar.util''}
   \<and> map fst (registry_of (analyse name_lib util_parse util_files ''/r''))
       = [''a.func'', ''b.util'', ''bar.util'', ''c.util'']
   \<and> last_segment ''bar.util'' = ''util''
   \<and> ''bar.util'' \<noteq> ''b.util''"
  by code_simp

section \<open>Collection registration\<close>

lemma functions_of_collect:
  "functions_of (collect_functions_and_imports parse_file py_files root)
     = assign_all [] (registrations parse_file root py_files)"
  by (simp add: functions_of_def collect_ok all_functions_final)

lemma log_of_collect:
  "log_of (collect_functions_and_imports parse_file py_files root)
     = failure_messages parse_file py_files"
  by (simp add: log_of_def collect_ok error_log_final)

lemma map_of_functions_of:
  "map_of (functions_of (collect_functions_and_imports parse_file py_files root))
     = map_of (rev (registrations parse_file root py_files))"
  by (simp add: functions_of_collect map_of_assign_all)


lemma set_functions_of:
  "set (functions_of (collect_functions_and_imports parse_file py_files root))
     \<subseteq> set (registrations parse_file root py_files)"
  using set_assign_all_subset [of "[]" "registrations parse_file root py_files"]
  by (simp add: functions_of_collect)

lemma item_registrations_iff:
  "(q, fp, node, cls) \<in> set (item_registrations file_path module cname item)
     \<longleftrightarrow> fp = file_path \<and> cls = Some cname
         \<and> (item = FunctionDef node \<or> item = AsyncFunctionDef node)
         \<and> q = module @ ''.'' @ cname @ ''.'' @ def_name node"
  by (cases item) auto

lemma node_registrations_iff:
  "(q, fp, node, cls) \<in> set (node_registrations file_path module s)
     \<longleftrightarrow> fp = file_path
         \<and> ((cls = None \<and> (s = FunctionDef node \<or> s = AsyncFunctionDef node)
               \<and> q = module @ ''.'' @ def_name node)
            \<or> (\<exists>cname bases cbody decos.
                  s = ClassDef cname bases cbody decos \<and> cls = Some cname
                  \<and> (FunctionDef node \<in> set cbody \<or> AsyncFunctionDef node \<in> set cbody)
                  \<and> q = module @ ''.'' @ cname @ ''.'' @ def_name node))"
  by (cases s) (auto simp: item_registrations_iff)

lemma body_registrations_iff:
  "(q, fp, node, cls) \<in> set (concat (map (node_registrations file_path module) tree_body))
     \<longleftrightarrow> fp = file_path \<and> collectable module tree_body q node cls"
proof
  assume "(q, fp, node, cls) \<in> set (concat (map (node_registrations file_path module) tree_body))"
  then obtain s where "s \<in> set tree_body"
    and "(q, fp, node, cls) \<in> set (node_registrations file_path module s)"
    by auto
  then show "fp = file_path \<and> collectable module tree_body q node cls"
    unfolding node_registrations_iff collectable_def by blast
next
  assume a: "fp = file_path \<and> collectable module tree_body q node cls"
  then have "\<exists>s \<in> set tree_body. (q, fp, node, cls) \<in> set (node_registrations file_path module s)"
    unfolding node_registrations_iff collectable_def by blast
  then show "(q, fp, node, cls) \<in> set (concat (map (node_registrations file_path module) tree_body))"
    by auto
qed

lemma registrations_iff:
  "(q, fp, node, cls) \<in> set (registrations parse_file root py_files)
     \<longleftrightarrow> fp \<in> set py_files
         \<and> (\<exists>tree_body. parse_file fp = Inr tree_body
               \<and> collectable (module_of fp root) tree_body q node cls)"
proof
  assume "(q, fp, node, cls) \<in> set (registrations parse_file root py_files)"
  then obtain f where f: "f \<in> set py_files"
    and m: "(q, fp, node, cls) \<in> set (file_registrations parse_file root f)"
    by (auto simp: registrations_def)
  from m have "\<exists>tree_body. parse_file f = Inr tree_body
    \<and> (q, fp, node, cls) \<in> set (concat (map (node_registrations f (module_of f root)) tree_body))"
    by (cases "parse_file f") (simp_all add: file_registrations_def del: set_concat)
  then obtain tree_body where p: "parse_file f = Inr tree_body"
    and "(q, fp, node, cls) \<in> set (concat (map (node_registrations f (module_of f root)) tree_body))"
    by blast
  then have "fp = f \<and> collectable (module_of f root) tree_body q node cls"
    by (simp only: body_registrations_iff)
  then show "fp \<in> set py_files
         \<and> (\<exists>tree_body. parse_file fp = Inr tree_body
               \<and> collectable (module_of fp root) tree_body q node cls)"
    using f p by blast
next
  assume "fp \<in> set py_files
         \<and> (\<exists>tree_body. parse_file fp = Inr tree_body
               \<and> collectable (module_of fp root) tree_body q node cls)"
  then obtain tree_body where f: "fp \<in> set py_files" and p: "parse_file fp = Inr tree_body"
    and c: "collectable (module_of fp root) tree_body q node cls"
    by blast
  from c have "(q, fp, node, cls) \<in> set (concat (map (node_registrations fp (module_of fp root)) tree_body))"
    by (simp only: body_registrations_iff)
  then have "(q, fp, node, cls) \<in> set (file_registrations parse_file root fp)"
    by (simp add: file_registrations_def p del: set_concat)
  then show "(q, fp, node, cls) \<in> set (registrations parse_file root py_files)"
    using f by (auto simp: registrations_def)
qed


lemma collectable_via_module:
  assumes "(q, fp, node, cls) \<in> set (functions_of (collect_functions_and_imports parse_file py_files root))"
  shows "fp \<in> set py_files
         \<and> (\<exists>tree_body. parse_file fp = Inr tree_body
               \<and> (\<exists>module. get_module_name fp root = Inr module
                     \<and> collectable module tree_body q node cls))"
proof -
  from assms have "(q, fp, node, cls) \<in> set (registrations parse_file root py_files)"
    using set_functions_of by blast
  then show ?thesis
    by (auto simp: registrations_iff get_module_name_total)
qed



section \<open>Collisions of qualified names\<close>

lemma map_of_rev_last:
  assumes "regs = earlier @ (qname, first) # between @ (qname, second) # later"
    and "qname \<notin> fst ` set later"
  shows "map_of (rev regs) qname = Some second"
proof -
  have "map_of (rev later) qname = None"
    using assms(2) by (simp add: map_of_eq_None_iff)
  then show ?thesis
    by (simp add: assms(1) map_add_def)
qed

text \<open>
  C8. When two definitions are registered under the same qualified name and no later one
  is, the final registry maps the name to the later definition, and the earlier one is no
  longer in the registry. The collector returns normally, and its log holds the messages
  of the parse failures and nothing else.
\<close>

theorem collision_overwrite:
  assumes "registrations parse_file root py_files
             = earlier @ (qname, first) # between @ (qname, second) # later"
    and "qname \<notin> fst ` set later"
  shows "map_of (functions_of (collect_functions_and_imports parse_file py_files root)) qname
           = Some second
         \<and> distinct (map fst (functions_of (collect_functions_and_imports parse_file py_files root)))
         \<and> (first \<noteq> second
              \<longrightarrow> (qname, first)
                    \<notin> set (functions_of (collect_functions_and_imports parse_file py_files root)))
         \<and> (\<exists>st. collect_functions_and_imports parse_file py_files root = Inr st)
         \<and> log_of (collect_functions_and_imports parse_file py_files root)
             = failure_messages parse_file py_files"
proof -
  let ?run = "collect_functions_and_imports parse_file py_files root"
  have last: "map_of (functions_of ?run) qname = Some second"
    using map_of_rev_last [OF assms] by (simp add: map_of_functions_of)
  have dist: "distinct (map fst (functions_of ?run))"
    by (simp add: functions_of_collect distinct_assign_all)
  have gone: "(qname, first) \<notin> set (functions_of ?run)" if "first \<noteq> second"
  proof
    assume "(qname, first) \<in> set (functions_of ?run)"
    with dist have "map_of (functions_of ?run) qname = Some first"
      by (rule map_of_is_SomeI)
    with last that show False by simp
  qed
  have ok: "\<exists>st. ?run = Inr st"
    by (simp add: collect_ok)
  show ?thesis
    using last dist gone ok log_of_collect by blast
qed

theorem collision_overwrite_witness:
  "registrations twice_parse ''/r'' [''/r/m.py'']
     = [(''m.f'', (''/r/m.py'', plain_def ''f'' [expr_stmt (Call (Name ''one'') [])], None)),
        (''m.f'', (''/r/m.py'', plain_def ''f'' [expr_stmt (Call (Name ''two'') [])], None))]
   \<and> functions_of (collect_functions_and_imports twice_parse [''/r/m.py''] ''/r'')
       = [(''m.f'', (''/r/m.py'', plain_def ''f'' [expr_stmt (Call (Name ''two'') [])], None))]
   \<and> log_of (collect_functions_and_imports twice_parse [''/r/m.py''] ''/r'') = []"
proof -
  let ?one = "(''/r/m.py'', plain_def ''f'' [expr_stmt (Call (Name ''one'') [])], None :: string option)"
  let ?two = "(''/r/m.py'', plain_def ''f'' [expr_stmt (Call (Name ''two'') [])], None :: string option)"
  have regs: "registrations twice_parse ''/r'' [''/r/m.py''] = [(''m.f'', ?one), (''m.f'', ?two)]"
    by code_simp
  then have shape: "registrations twice_parse ''/r'' [''/r/m.py'']
                      = [] @ (''m.f'', ?one) # [] @ (''m.f'', ?two) # []"
    by simp
  have fresh: "''m.f'' \<notin> fst ` set ([] :: (string \<times> definition_entry) list)"
    by simp
  have final: "functions_of (collect_functions_and_imports twice_parse [''/r/m.py''] ''/r'')
                 = [(''m.f'', ?two)]"
    by code_simp
  have none: "failure_messages twice_parse [''/r/m.py''] = []"
    by code_simp
  from collision_overwrite
    [where parse_file = twice_parse and root = "''/r''" and py_files = "[''/r/m.py'']"
       and earlier = "[]" and between = "[]" and later = "[]" and qname = "''m.f''"
       and first = ?one and second = ?two, OF shape fresh]
  have "log_of (collect_functions_and_imports twice_parse [''/r/m.py''] ''/r'')
          = failure_messages twice_parse [''/r/m.py'']"
    by blast
  with regs final none show ?thesis by simp
qed

section \<open>Import-table entries\<close>

lemma module_table_of_collect:
  "module_table_of (collect_functions_and_imports parse_file py_files root) module
     = map_option (file_aliases parse_file) (last_file_of root py_files module)"
  by (simp add: module_table_of_def collect_ok final_state_def module_imports_steps
      initial_state_def split: option.splits)

lemma symbol_table_of_collect:
  "symbol_table_of (collect_functions_and_imports parse_file py_files root) module
     = map_option (file_symbols parse_file) (last_file_of root py_files module)"
  by (simp add: symbol_table_of_def collect_ok final_state_def symbol_imports_steps
      initial_state_def split: option.splits)

lemma last_file_of_split:
  assumes "get_module_name file_path root = Inr module"
    and "\<forall>g \<in> set later. get_module_name g root \<noteq> Inr module"
  shows "last_file_of root (earlier @ file_path # later) module = Some file_path"
proof -
  have m: "module_of file_path root = module"
    using assms(1) by (simp add: get_module_name_total)
  have "\<forall>g \<in> set later. module_of g root \<noteq> module_of file_path root"
    using assms(2) by (simp add: get_module_name_total m)
  then have "last_file_of root (earlier @ file_path # later) (module_of file_path root) = Some file_path"
    by (rule last_file_of_last)
  then show ?thesis by (simp only: m)
qed

lemma failed_file_not_registered:
  assumes "parse_file file_path = Inl e"
    and "(q, fp, node, cls) \<in> set (functions_of (collect_functions_and_imports parse_file py_files root))"
  shows "fp \<noteq> file_path"
proof
  assume "fp = file_path"
  moreover from assms(2) have "\<exists>tree_body. parse_file fp = Inr tree_body"
    using collectable_via_module by blast
  ultimately show False using assms(1) by simp
qed

text \<open>
  C10, as amended. After collection both import tables have a key for the module name of
  every input file, whether it parsed or not. The entry under a module name is the table
  of the last file of that module name: its imports when it parsed, the empty table when it
  failed. In particular a failed file that no later file shares its module name with leaves
  empty entries, and no definition of a failed file is in the registry.
\<close>

theorem import_table_entries:
  "(file_path \<in> set py_files \<and> get_module_name file_path root = Inr module \<longrightarrow>
      (\<exists>t. module_table_of (collect_functions_and_imports parse_file py_files root) module = Some t)
      \<and> (\<exists>t. symbol_table_of (collect_functions_and_imports parse_file py_files root) module = Some t))
   \<and> (py_files = earlier @ file_path # later \<and> get_module_name file_path root = Inr module
        \<and> (\<forall>g \<in> set later. get_module_name g root \<noteq> Inr module) \<longrightarrow>
      module_table_of (collect_functions_and_imports parse_file py_files root) module
        = Some (file_aliases parse_file file_path)
      \<and> symbol_table_of (collect_functions_and_imports parse_file py_files root) module
        = Some (file_symbols parse_file file_path))
   \<and> (parse_file file_path = Inl e \<longrightarrow>
      file_aliases parse_file file_path = Map.empty
      \<and> file_symbols parse_file file_path = Map.empty
      \<and> (\<forall>(q, fp, node, cls)
             \<in> set (functions_of (collect_functions_and_imports parse_file py_files root)).
           fp \<noteq> file_path))"
proof (intro conjI impI)
  assume a: "file_path \<in> set py_files \<and> get_module_name file_path root = Inr module"
  then have m: "module_of file_path root = module"
    by (simp add: get_module_name_total)
  from a obtain f where f: "last_file_of root py_files module = Some f"
    using last_file_of_member [of file_path py_files root] m by auto
  show "\<exists>t. module_table_of (collect_functions_and_imports parse_file py_files root) module = Some t"
    by (simp add: module_table_of_collect f)
  show "\<exists>t. symbol_table_of (collect_functions_and_imports parse_file py_files root) module = Some t"
    by (simp add: symbol_table_of_collect f)
next
  assume a: "py_files = earlier @ file_path # later \<and> get_module_name file_path root = Inr module
        \<and> (\<forall>g \<in> set later. get_module_name g root \<noteq> Inr module)"
  then have l: "last_file_of root py_files module = Some file_path"
    using last_file_of_split by blast
  show "module_table_of (collect_functions_and_imports parse_file py_files root) module
        = Some (file_aliases parse_file file_path)"
    by (simp add: module_table_of_collect l)
  show "symbol_table_of (collect_functions_and_imports parse_file py_files root) module
        = Some (file_symbols parse_file file_path)"
    by (simp add: symbol_table_of_collect l)
next
  assume a: "parse_file file_path = Inl e"
  show "file_aliases parse_file file_path = Map.empty"
    by (simp add: file_aliases_def a)
  show "file_symbols parse_file file_path = Map.empty"
    by (simp add: file_symbols_def a)
  show "\<forall>(q, fp, node, cls)
             \<in> set (functions_of (collect_functions_and_imports parse_file py_files root)).
           fp \<noteq> file_path"
    using a failed_file_not_registered [where parse_file = parse_file and file_path = file_path]
    by fastforce
qed

theorem import_table_entries_witness:
  "module_table_of (collect_functions_and_imports pkg_parse [''/r/pkg/__init__.py'', ''/r/pkg.py''] ''/r'')
       ''pkg'' = Some Map.empty
   \<and> symbol_table_of (collect_functions_and_imports pkg_parse [''/r/pkg/__init__.py'', ''/r/pkg.py''] ''/r'')
       ''pkg'' = Some Map.empty
   \<and> functions_of (collect_functions_and_imports pkg_parse [''/r/pkg/__init__.py'', ''/r/pkg.py''] ''/r'')
       = []
   \<and> log_of (collect_functions_and_imports pkg_parse [''/r/pkg/__init__.py'', ''/r/pkg.py''] ''/r'')
       = [''Failed to parse /r/pkg.py: invalid syntax'']"
proof -
  let ?files = "[''/r/pkg/__init__.py'', ''/r/pkg.py'']"
  note inst = import_table_entries
    [where parse_file = pkg_parse and py_files = ?files and root = "''/r''"
       and file_path = "''/r/pkg.py''" and module = "''pkg''"
       and earlier = "[''/r/pkg/__init__.py'']" and later = "[]" and e = "''invalid syntax''"]
  have listed: "''/r/pkg.py'' \<in> set ?files"
    by simp
  have modl: "get_module_name ''/r/pkg.py'' ''/r'' = Inr ''pkg''"
    by code_simp
  have shape: "?files = [''/r/pkg/__init__.py''] @ ''/r/pkg.py'' # []"
    by simp
  have nolater: "\<forall>g \<in> set ([] :: string list). get_module_name g ''/r'' \<noteq> Inr ''pkg''"
    by simp
  have fails: "pkg_parse ''/r/pkg.py'' = Inl ''invalid syntax''"
    by (simp add: pkg_parse_def)
  have t1: "module_table_of (collect_functions_and_imports pkg_parse ?files ''/r'') ''pkg''
              = Some (file_aliases pkg_parse ''/r/pkg.py'')"
    and t2: "symbol_table_of (collect_functions_and_imports pkg_parse ?files ''/r'') ''pkg''
              = Some (file_symbols pkg_parse ''/r/pkg.py'')"
    using inst shape modl nolater by blast+
  have e1: "file_aliases pkg_parse ''/r/pkg.py'' = Map.empty"
    and e2: "file_symbols pkg_parse ''/r/pkg.py'' = Map.empty"
    using inst fails by blast+
  have regs: "functions_of (collect_functions_and_imports pkg_parse ?files ''/r'') = []"
    by code_simp
  have lg: "log_of (collect_functions_and_imports pkg_parse ?files ''/r'')
              = [''Failed to parse /r/pkg.py: invalid syntax'']"
    by code_simp
  from t1 t2 e1 e2 regs lg show ?thesis
    by (simp only:)
qed

theorem import_table_entries_counterexample:
  "log_of (collect_functions_and_imports pkg_parse pkg_files ''/r'')
     = [''Failed to parse /r/pkg.py: invalid syntax'']
   \<and> get_module_name ''/r/pkg.py'' ''/r'' = Inr ''pkg''
   \<and> alias_of (collect_functions_and_imports pkg_parse pkg_files ''/r'') ''pkg'' ''os'' = Some ''os''
   \<and> symbol_of (collect_functions_and_imports pkg_parse pkg_files ''/r'') ''pkg'' ''path''
       = Some (Some ''sys'', ''path'')
   \<and> module_table_of (collect_functions_and_imports pkg_parse pkg_files ''/r'') ''pkg''
       \<noteq> Some Map.empty
   \<and> symbol_table_of (collect_functions_and_imports pkg_parse pkg_files ''/r'') ''pkg''
       \<noteq> Some Map.empty"
proof -
  let ?run = "collect_functions_and_imports pkg_parse pkg_files ''/r''"
  have lg: "log_of ?run = [''Failed to parse /r/pkg.py: invalid syntax'']"
    by code_simp
  have modl: "get_module_name ''/r/pkg.py'' ''/r'' = Inr ''pkg''"
    by code_simp
  have a: "alias_of ?run ''pkg'' ''os'' = Some ''os''"
    by code_simp
  have s: "symbol_of ?run ''pkg'' ''path'' = Some (Some ''sys'', ''path'')"
    by code_simp
  have na: "module_table_of ?run ''pkg'' \<noteq> Some Map.empty"
    using a by (auto simp: alias_of_def)
  have ns: "symbol_table_of ?run ''pkg'' \<noteq> Some Map.empty"
    using s by (auto simp: symbol_of_def)
  from lg modl a s na ns show ?thesis by blast
qed

section \<open>Parse failures\<close>














lemma write_markdown_registry:
  "write_markdown root function_details functions = write_markdown root function_details functions'"
  by (simp add: write_markdown_def)









end
